theory Spec2Isabelle
  imports Complex_Main
begin

section \<open>Data model of the schedule validation engine\<close>

text \<open>
  The validators of \<^verbatim>\<open>backend/app/agents/schedule_validation\<close> work on flight
  dictionaries and return lists of issue dictionaries. A flight dictionary becomes the
  record \<open>flight\<close>, with the keys the validators read. A time of day (Python's
  \<^verbatim>\<open>datetime.time\<close>, which \<^verbatim>\<open>_parse_time\<close> builds from \<^verbatim>\<open>HH:MM[:SS]\<close>) is
  the number of seconds since midnight: comparing two \<^verbatim>\<open>time\<close> objects compares these
  numbers. A date is a day number; an ISO date string compares as its day number does.
  A key that may hold \<^verbatim>\<open>None\<close> is an option.
\<close>

type_synonym time = nat
type_synonym date = int

definition mk_time :: "nat \<Rightarrow> nat \<Rightarrow> nat \<Rightarrow> time" where
  "mk_time h m s = 3600 * h + 60 * m + s"

record flight =
  flight_id :: string
  flight_number :: string
  carrier_code :: string
  origin_airport :: string
  destination_airport :: string
  departure_time :: time
  arrival_time :: time
  operating_days :: string
  effective_from :: "date option"
  effective_to :: "date option"
  aircraft_type :: string
  service_type :: string
  frequency_per_week :: "nat option"
  aircraft_registration :: "string option"
  is_ferry :: bool

datatype severity = Critical | High | Medium | Low | Info

datatype detail = DStr string | DInt int | DTime time | DBool bool | DNone

text \<open>
  An issue dictionary: the keys every issue has, and the category-specific attributes as
  an association list. The free-text keys (\<^verbatim>\<open>description\<close>, \<^verbatim>\<open>recommended_action\<close>,
  \<^verbatim>\<open>impact\<close>) are left out, and so are the attributes that only format other values
  (a period as a string, hours rounded to one decimal, the start and end of a
  maintenance window).
\<close>

record issue =
  severity :: severity
  category :: string
  i_flight_id :: string
  i_flight_number :: string
  issue_type :: string
  details :: "(string \<times> detail) list"

definition new_issue ::
  "severity \<Rightarrow> string \<Rightarrow> string \<Rightarrow> string \<Rightarrow> string \<Rightarrow> (string \<times> detail) list \<Rightarrow> issue" where
  "new_issue sev cat fid fno ty ds =
     \<lparr>severity = sev, category = cat, i_flight_id = fid, i_flight_number = fno,
      issue_type = ty, details = ds\<rparr>"

text \<open>Python's truthiness of an optional string: \<^verbatim>\<open>None\<close> and \<^verbatim>\<open>""\<close> are false.\<close>

fun truthy_str :: "string option \<Rightarrow> bool" where
  "truthy_str None = False"
| "truthy_str (Some s) = (s \<noteq> [])"

section \<open>PatternValidator: operating-days format\<close>

definition VALID_OPERATING_CHARS :: "char set" where
  "VALID_OPERATING_CHARS = set ''1234567X''"

text \<open>
  \<^verbatim>\<open>_validate_operating_days\<close>. The list of invalid characters is built from a Python
  set, whose order is not fixed; the model lists them in order of first appearance.
\<close>

definition validate_operating_days :: "flight \<Rightarrow> issue list" where
  "validate_operating_days f =
     (let od = operating_days f in
      if length od \<noteq> 7 then
        [new_issue Critical ''pattern_validation'' (flight_id f) (flight_number f)
           ''invalid_operating_days_length'' [(''operating_days'', DStr od)]]
      else
        (let invalid_chars = set od - VALID_OPERATING_CHARS in
         (if invalid_chars \<noteq> {} then
            [new_issue Critical ''pattern_validation'' (flight_id f) (flight_number f)
               ''invalid_operating_days_chars''
               [(''operating_days'', DStr od),
                (''invalid_characters'',
                   DStr (remdups (filter (\<lambda>c. c \<notin> VALID_OPERATING_CHARS) od)))]]
          else []) @
         (if od = ''XXXXXXX'' \<or> \<not> (\<exists>c \<in> set od. c \<in> set ''1234567'') then
            [new_issue High ''pattern_validation'' (flight_id f) (flight_number f)
               ''no_operating_days'' [(''operating_days'', DStr od)]]
          else [])))"

text \<open>
  Positional correctness as the data model words it: exactly seven characters, and the
  character at position \<open>i\<close> (Monday is 1) is the digit \<open>i\<close> or the placeholder \<open>X\<close>.
\<close>

definition positionally_correct :: "string \<Rightarrow> bool" where
  "positionally_correct od =
     list_all2 (\<lambda>c d. c = d \<or> c = CHR ''X'') od ''1234567''"

definition sample_flight :: flight where
  "sample_flight =
     \<lparr>flight_id = ''test-flight-001'', flight_number = ''CM101'', carrier_code = ''CM'',
      origin_airport = ''PTY'', destination_airport = ''MIA'',
      departure_time = mk_time 8 0 0, arrival_time = mk_time 11 30 0,
      operating_days = ''1234567'', effective_from = Some 20089, effective_to = Some 20178,
      aircraft_type = ''738'', service_type = ''J'', frequency_per_week = Some 7,
      aircraft_registration = Some ''HP-1234'', is_ferry = False\<rparr>"


section \<open>Dates, times and grouping\<close>

text \<open>
  A \<^verbatim>\<open>datetime\<close> is a date and a time of day. \<open>total_seconds a b\<close> is
  \<^verbatim>\<open>(a - b).total_seconds()\<close>. The validators obtain the current date from
  \<^verbatim>\<open>datetime.today()\<close> or \<^verbatim>\<open>datetime.now().date()\<close>; the model passes it as the
  argument \<open>today\<close>, one value for all calls within one function. The source reads the
  clock anew for each datetime it builds, two or three times in one comparison; the model
  takes these readings to fall on one day, and says nothing of a comparison with midnight
  between two of its readings.
\<close>

type_synonym datetime = "date \<times> time"

definition combine :: "date \<Rightarrow> time \<Rightarrow> datetime" where
  "combine d t = (d, t)"

definition dt_time :: "datetime \<Rightarrow> time" where
  "dt_time dt = snd dt"

definition dt_less :: "datetime \<Rightarrow> datetime \<Rightarrow> bool" where
  "dt_less a b = (fst a < fst b \<or> (fst a = fst b \<and> snd a < snd b))"

definition plus_days :: "datetime \<Rightarrow> int \<Rightarrow> datetime" where
  "plus_days dt n = (fst dt + n, snd dt)"

definition total_seconds :: "datetime \<Rightarrow> datetime \<Rightarrow> int" where
  "total_seconds a b = (fst a - fst b) * 86400 + (int (snd a) - int (snd b))"

text \<open>
  Python's \<^verbatim>\<open>round\<close> to an integer (ties go to the even neighbour). Minutes and hours
  are floats in the source and exact rationals here: a quotient of whole seconds by 60
  compares with a whole number of minutes as the float does.
\<close>

definition py_round :: "rat \<Rightarrow> int" where
  "py_round x =
     (let f = \<lfloor>x\<rfloor>; d = x - of_int f in
      if d < 1 / 2 then f else if 1 / 2 < d then f + 1
      else if even f then f else f + 1)"

text \<open>
  A dictionary of lists, filled in a loop with
  \<^verbatim>\<open>if key not in grouped: grouped[key] = []\<close> and \<^verbatim>\<open>grouped[key].append(flight)\<close>:
  an association list in order of first insertion.
\<close>

fun group_insert :: "'k \<Rightarrow> 'v \<Rightarrow> ('k \<times> 'v list) list \<Rightarrow> ('k \<times> 'v list) list" where
  "group_insert k v [] = [(k, [v])]"
| "group_insert k v ((k', vs) # rest) =
     (if k = k' then (k', vs @ [v]) # rest else (k', vs) # group_insert k v rest)"

section \<open>Reference data\<close>

text \<open>
  The validators read reference data through SQL queries on the database connection.
  Each query is a field of \<open>refdata\<close>: the function from the query's parameters to what
  \<^verbatim>\<open>fetchone\<close> returns. The table \<^verbatim>\<open>airport_constraints\<close> is kept as rows, because
  its query selects by the current date. A query that raises (a lost connection, a
  timeout) is not a value of these functions; in the model of the agent it is a
  validator that raises.
\<close>

record aircraft_info =
  registration :: string
  info_aircraft_type :: string
  status :: string

record maintenance =
  maintenance_type :: string
  maintenance_location :: string

record constraint_row =
  row_airport_code :: string
  row_effective_from :: date
  row_effective_to :: "date option"
  row_operating_hours_start :: "time option"
  row_operating_hours_end :: "time option"
  row_curfew_start :: "time option"
  row_curfew_end :: "time option"
  row_strict_curfew :: "bool option"
  row_max_night_movements :: "nat option"
  row_noise_category_required :: "string option"
  row_exemption_types :: "string list option"

record refdata =
  mct_minutes :: "string \<Rightarrow> string \<Rightarrow> string \<Rightarrow> int option"
  leg_terminal :: "string \<Rightarrow> string \<Rightarrow> string \<Rightarrow> string option option"
  aircraft_row :: "string \<Rightarrow> aircraft_info option"
  maintenance_row :: "string \<Rightarrow> time \<Rightarrow> maintenance option"
  airport_constraints :: "constraint_row list"
  slot_exemption :: "string \<Rightarrow> string \<Rightarrow> string \<Rightarrow> (string \<times> string) option"
  night_movements :: "string \<Rightarrow> date option \<Rightarrow> time \<Rightarrow> time \<Rightarrow> nat"
  leg_count :: "string \<Rightarrow> nat"
  pair_distance :: "string \<Rightarrow> string \<Rightarrow> rat option"

section \<open>MCTValidator\<close>

definition DEFAULT_MCT :: "string \<Rightarrow> int" where
  "DEFAULT_MCT k =
     (if k = ''domestic_domestic'' then 45
      else if k = ''domestic_international'' then 75
      else if k = ''international_domestic'' then 90
      else if k = ''international_international'' then 60
      else if k = ''same_terminal'' then 0
      else if k = ''terminal_change'' then 20
      else if k = ''interline'' then 15
      else if k = ''baggage_recheck'' then 30
      else 0)"

definition MCT_HUB_AIRPORTS :: "string set" where
  "MCT_HUB_AIRPORTS =
     set [''JFK'', ''LHR'', ''CDG'', ''FRA'', ''AMS'', ''ORD'', ''LAX'', ''DFW'',
          ''ATL'', ''DEN'', ''IAH'', ''SFO'', ''MIA'', ''EWR'', ''LGA'']"

definition SCHENGEN_COUNTRIES :: "string set" where
  "SCHENGEN_COUNTRIES =
     set [''AT'', ''BE'', ''CZ'', ''DK'', ''EE'', ''FI'', ''FR'', ''DE'', ''GR'', ''HU'',
          ''IS'', ''IT'', ''LV'', ''LI'', ''LT'', ''LU'', ''MT'', ''NL'', ''NO'', ''PL'',
          ''PT'', ''SK'', ''SI'', ''ES'', ''SE'', ''CH'']"

definition AIRPORT_COUNTRIES :: "(string \<times> string) list" where
  "AIRPORT_COUNTRIES =
     [(''JFK'', ''US''), (''LAX'', ''US''), (''ORD'', ''US''), (''ATL'', ''US''), (''DFW'', ''US''),
      (''LHR'', ''GB''), (''CDG'', ''FR''), (''FRA'', ''DE''), (''AMS'', ''NL''), (''MAD'', ''ES''),
      (''NRT'', ''JP''), (''HND'', ''JP''), (''ICN'', ''KR''), (''PVG'', ''CN''), (''HKG'', ''HK''),
      (''DXB'', ''AE''), (''SIN'', ''SG''), (''BKK'', ''TH''), (''SYD'', ''AU''), (''MEL'', ''AU''),
      (''YYZ'', ''CA''), (''YVR'', ''CA''), (''GRU'', ''BR''), (''EZE'', ''AR''), (''SCL'', ''CL''),
      (''PTY'', ''PA''), (''BOG'', ''CO''), (''LIM'', ''PE''), (''GIG'', ''BR''), (''MIA'', ''US''),
      (''IAH'', ''US''), (''EWR'', ''US''), (''SFO'', ''US''), (''DEN'', ''US''), (''LGA'', ''US'')]"

definition get_country_from_airport :: "string \<Rightarrow> string" where
  "get_country_from_airport airport_code =
     (case map_of AIRPORT_COUNTRIES airport_code of Some c \<Rightarrow> c | None \<Rightarrow> ''XX'')"

definition is_international_flight :: "flight \<Rightarrow> bool" where
  "is_international_flight f =
     (get_country_from_airport (origin_airport f)
        \<noteq> get_country_from_airport (destination_airport f))"

definition is_schengen_connection :: "flight \<Rightarrow> flight \<Rightarrow> bool" where
  "is_schengen_connection inbound outbound =
     (get_country_from_airport (destination_airport inbound) \<in> SCHENGEN_COUNTRIES \<and>
      get_country_from_airport (destination_airport outbound) \<in> SCHENGEN_COUNTRIES)"

text \<open>
  \<^verbatim>\<open>_requires_terminal_change\<close>: \<open>leg_terminal\<close> is the row of the terminal query
  (\<open>None\<close> when there is no row; the terminal itself may be null).
\<close>

definition requires_terminal_change :: "refdata \<Rightarrow> string \<Rightarrow> flight \<Rightarrow> flight \<Rightarrow> bool" where
  "requires_terminal_change ref airport inbound outbound =
     (case (leg_terminal ref (flight_id inbound) airport ''arrival'',
            leg_terminal ref (flight_id outbound) airport ''departure'') of
        (Some inbound_terminal, Some outbound_terminal) \<Rightarrow>
          inbound_terminal \<noteq> outbound_terminal
      | _ \<Rightarrow>
          if airport \<in> MCT_HUB_AIRPORTS then
            (if carrier_code inbound \<noteq> carrier_code outbound then True else False)
          else False)"

definition requires_baggage_recheck :: "flight \<Rightarrow> flight \<Rightarrow> bool" where
  "requires_baggage_recheck inbound outbound =
     (if carrier_code inbound \<noteq> carrier_code outbound then True
      else
        (let inbound_intl = is_international_flight inbound;
             outbound_intl = is_international_flight outbound in
         if \<not> inbound_intl \<and> outbound_intl then
           (if get_country_from_airport (origin_airport inbound) = ''US'' then True else False)
         else False))"

text \<open>
  \<^verbatim>\<open>_get_required_mct\<close>. \<open>mct_minutes\<close> is the result of \<^verbatim>\<open>_get_mct_from_database\<close>;
  \<^verbatim>\<open>if db_mct\<close> is false for \<^verbatim>\<open>None\<close> and for 0.
\<close>

definition get_required_mct :: "refdata \<Rightarrow> string \<Rightarrow> flight \<Rightarrow> flight \<Rightarrow> int" where
  "get_required_mct ref airport inbound outbound =
     (let db_mct = mct_minutes ref airport (carrier_code inbound) (carrier_code outbound) in
      if db_mct \<noteq> None \<and> db_mct \<noteq> Some 0 then the db_mct
      else
        (let inbound_intl = is_international_flight inbound;
             outbound_intl = is_international_flight outbound;
             mct = (if \<not> inbound_intl \<and> \<not> outbound_intl then DEFAULT_MCT ''domestic_domestic''
                    else if \<not> inbound_intl \<and> outbound_intl then DEFAULT_MCT ''domestic_international''
                    else if inbound_intl \<and> \<not> outbound_intl then DEFAULT_MCT ''international_domestic''
                    else if is_schengen_connection inbound outbound then DEFAULT_MCT ''domestic_domestic''
                    else DEFAULT_MCT ''international_international'');
             mct = (if requires_terminal_change ref airport inbound outbound
                    then mct + DEFAULT_MCT ''terminal_change'' else mct);
             mct = (if carrier_code inbound \<noteq> carrier_code outbound
                    then mct + DEFAULT_MCT ''interline'' else mct);
             mct = (if requires_baggage_recheck inbound outbound
                    then mct + DEFAULT_MCT ''baggage_recheck'' else mct);
             mct = (if airport \<in> MCT_HUB_AIRPORTS then mct + 10 else mct)
         in mct))"

text \<open>
  The connection time both \<^verbatim>\<open>_is_potential_connection\<close> and
  \<^verbatim>\<open>_validate_connection_time\<close> compute: the departure is moved to the next day when
  it is before the arrival.
\<close>

definition connection_minutes :: "date \<Rightarrow> flight \<Rightarrow> flight \<Rightarrow> rat" where
  "connection_minutes today inbound outbound =
     (let arr_dt = combine today (arrival_time inbound);
          dep_dt = combine today (departure_time outbound);
          dep_dt = (if dt_less dep_dt arr_dt then plus_days dep_dt 1 else dep_dt)
      in of_int (total_seconds dep_dt arr_dt) / 60)"

definition is_potential_connection :: "date \<Rightarrow> flight \<Rightarrow> flight \<Rightarrow> bool" where
  "is_potential_connection today inbound outbound =
     (30 \<le> connection_minutes today inbound outbound \<and>
      connection_minutes today inbound outbound \<le> 360)"

definition validate_connection_time :: "date \<Rightarrow> refdata \<Rightarrow> flight \<Rightarrow> flight \<Rightarrow> issue list" where
  "validate_connection_time today ref inbound outbound =
     (let connection_airport = destination_airport inbound;
          actual_connection_minutes = connection_minutes today inbound outbound;
          required_mct = get_required_mct ref connection_airport inbound outbound in
      if actual_connection_minutes < of_int required_mct then
        [new_issue High ''mct_validation'' (flight_id outbound) (flight_number outbound)
           ''insufficient_connection_time''
           [(''connection_airport'', DStr connection_airport),
            (''inbound_flight'', DStr (flight_number inbound)),
            (''inbound_arrival'', DTime (arrival_time inbound)),
            (''outbound_flight'', DStr (flight_number outbound)),
            (''outbound_departure'', DTime (departure_time outbound)),
            (''actual_connection_minutes'', DInt (py_round actual_connection_minutes)),
            (''required_mct_minutes'', DInt required_mct),
            (''shortfall_minutes'',
               DInt (py_round (of_int required_mct - actual_connection_minutes)))]]
      else if actual_connection_minutes < of_int (required_mct + 5) then
        [new_issue Medium ''mct_validation'' (flight_id outbound) (flight_number outbound)
           ''tight_connection''
           [(''connection_airport'', DStr connection_airport),
            (''inbound_flight'', DStr (flight_number inbound)),
            (''outbound_flight'', DStr (flight_number outbound)),
            (''actual_connection_minutes'', DInt (py_round actual_connection_minutes)),
            (''required_mct_minutes'', DInt required_mct),
            (''buffer_minutes'',
               DInt (py_round (actual_connection_minutes - of_int required_mct)))]]
      else [])"

text \<open>
  \<^verbatim>\<open>_find_connections\<close>: the flights are grouped under the key
  (destination airport, effective-from date), and each flight is paired with the flights
  found under the key of its own destination.
\<close>

definition find_connections :: "date \<Rightarrow> flight list \<Rightarrow> (flight \<times> flight) list" where
  "find_connections today flights =
     (let flights_by_airport =
            foldl (\<lambda>g f. group_insert (destination_airport f, effective_from f) f g) [] flights
      in concat (map (\<lambda>f.
           (case map_of flights_by_airport (destination_airport f, effective_from f) of
              None \<Rightarrow> []
            | Some outbounds \<Rightarrow>
                map (\<lambda>outbound. (f, outbound))
                    (filter (\<lambda>outbound. is_potential_connection today f outbound) outbounds)))
         flights))"

definition mct_validate :: "date \<Rightarrow> refdata \<Rightarrow> flight list \<Rightarrow> issue list" where
  "mct_validate today ref flights =
     concat (map (\<lambda>(inbound_flight, outbound_flight).
                    validate_connection_time today ref inbound_flight outbound_flight)
                 (find_connections today flights))"


section \<open>AircraftValidator\<close>

definition MIN_TURNAROUND_TIMES :: "(string \<times> int) list" where
  "MIN_TURNAROUND_TIMES =
     [(''narrow_body'', 45), (''wide_body'', 90), (''regional'', 30), (''default'', 45)]"

definition AIRCRAFT_CATEGORIES :: "(string \<times> string list) list" where
  "AIRCRAFT_CATEGORIES =
     [(''narrow_body'', [''319'', ''320'', ''321'', ''733'', ''737'', ''738'', ''739'']),
      (''wide_body'', [''330'', ''333'', ''359'', ''763'', ''764'', ''772'', ''773'', ''787'',
                       ''788'', ''789'']),
      (''regional'', [''E90'', ''E95'', ''CR7'', ''CR9'', ''DH4''])]"

definition MAX_DAILY_FLIGHT_HOURS :: int where
  "MAX_DAILY_FLIGHT_HOURS = 16"

text \<open>
  The loop \<^verbatim>\<open>for category, types in TABLE.items(): if t in types: return category\<close>,
  followed by the return of a default.
\<close>

fun category_of :: "(string \<times> string list) list \<Rightarrow> string \<Rightarrow> string \<Rightarrow> string" where
  "category_of [] dflt t = dflt"
| "category_of ((cat, types) # rest) dflt t =
     (if t \<in> set types then cat else category_of rest dflt t)"

definition get_aircraft_category :: "string \<Rightarrow> string" where
  "get_aircraft_category t = category_of AIRCRAFT_CATEGORIES ''default'' t"

definition min_turnaround_of :: "string \<Rightarrow> int" where
  "min_turnaround_of cat =
     (case map_of MIN_TURNAROUND_TIMES cat of
        Some m \<Rightarrow> m
      | None \<Rightarrow> the (map_of MIN_TURNAROUND_TIMES ''default''))"

text \<open>\<^verbatim>\<open>_group_by_aircraft\<close>: a flight whose registration is \<^verbatim>\<open>None\<close> or empty is skipped.\<close>

definition group_by_aircraft :: "flight list \<Rightarrow> (string \<times> flight list) list" where
  "group_by_aircraft flights =
     foldl (\<lambda>grouped f.
              (case aircraft_registration f of
                 None \<Rightarrow> grouped
               | Some reg \<Rightarrow> if reg \<noteq> [] then group_insert reg f grouped else grouped))
           [] flights"

definition validate_aircraft_type :: "flight \<Rightarrow> aircraft_info \<Rightarrow> issue list" where
  "validate_aircraft_type f info =
     (if aircraft_type f \<noteq> info_aircraft_type info then
        [new_issue High ''aircraft_validation'' (flight_id f) (flight_number f)
           ''aircraft_type_mismatch''
           [(''aircraft_registration'', DStr (registration info)),
            (''expected_type'', DStr (aircraft_type f)),
            (''actual_type'', DStr (info_aircraft_type info))]]
      else [])"

definition validate_maintenance :: "refdata \<Rightarrow> flight \<Rightarrow> string \<Rightarrow> issue list" where
  "validate_maintenance ref f aircraft_reg =
     (case maintenance_row ref aircraft_reg (departure_time f) of
        Some m \<Rightarrow>
          [new_issue Critical ''aircraft_validation'' (flight_id f) (flight_number f)
             ''maintenance_conflict''
             [(''aircraft_registration'', DStr aircraft_reg),
              (''maintenance_type'', DStr (maintenance_type m)),
              (''maintenance_location'', DStr (maintenance_location m))]]
      | None \<Rightarrow> [])"

text \<open>
  \<^verbatim>\<open>_validate_turnaround\<close>. When the departure is before the previous arrival, the
  source combines the departure with tomorrow's date and takes \<^verbatim>\<open>.time()\<close> of the
  result; both datetimes are then built on today's date.
\<close>

definition turnaround_minutes :: "date \<Rightarrow> flight \<Rightarrow> flight \<Rightarrow> rat" where
  "turnaround_minutes today prev_flight current_flight =
     (let prev_arrival = arrival_time prev_flight;
          current_departure = departure_time current_flight;
          current_departure =
            (if current_departure < prev_arrival
             then dt_time (combine (today + 1) current_departure)
             else current_departure);
          prev_arrival_dt = combine today prev_arrival;
          current_departure_dt = combine today current_departure
      in of_int (total_seconds current_departure_dt prev_arrival_dt) / 60)"

definition validate_turnaround ::
  "date \<Rightarrow> flight \<Rightarrow> flight \<Rightarrow> aircraft_info \<Rightarrow> issue list" where
  "validate_turnaround today prev_flight current_flight info =
     (let minutes = turnaround_minutes today prev_flight current_flight;
          cat = get_aircraft_category (info_aircraft_type info);
          min_turnaround = min_turnaround_of cat in
      if minutes < of_int min_turnaround then
        [new_issue High ''aircraft_validation'' (flight_id current_flight)
           (flight_number current_flight) ''insufficient_turnaround''
           [(''aircraft_registration'', DStr (registration info)),
            (''previous_flight'', DStr (flight_number prev_flight)),
            (''previous_arrival'', DTime (arrival_time prev_flight)),
            (''current_departure'', DTime (departure_time current_flight)),
            (''turnaround_minutes'', DInt (py_round minutes)),
            (''minimum_required'', DInt min_turnaround)]]
      else [])"

definition validate_routing_continuity :: "flight \<Rightarrow> flight \<Rightarrow> issue list" where
  "validate_routing_continuity prev_flight current_flight =
     (if destination_airport prev_flight \<noteq> origin_airport current_flight then
        [new_issue Critical ''aircraft_validation'' (flight_id current_flight)
           (flight_number current_flight) ''routing_discontinuity''
           [(''aircraft_registration'',
               (case aircraft_registration current_flight of
                  Some r \<Rightarrow> DStr r | None \<Rightarrow> DNone)),
            (''previous_flight'', DStr (flight_number prev_flight)),
            (''previous_destination'', DStr (destination_airport prev_flight)),
            (''current_origin'', DStr (origin_airport current_flight))]]
      else [])"

text \<open>
  The flight duration \<^verbatim>\<open>_validate_daily_utilization\<close> estimates, in hours: the
  arrival is on the next day when it is before the departure.
\<close>

definition duration_hours :: "date \<Rightarrow> flight \<Rightarrow> rat" where
  "duration_hours today f =
     (let dep = departure_time f; arr = arrival_time f;
          dep_dt = combine today dep;
          arr_dt = (if arr < dep then combine (today + 1) arr else combine today arr)
      in of_int (total_seconds arr_dt dep_dt) / 3600)"

text \<open>
  One group of \<^verbatim>\<open>flights_by_date\<close>. The group is never empty, since a key is created
  when its first flight is appended; the issue names the first flight of the group.
\<close>

definition utilization_of_day :: "date \<Rightarrow> string \<Rightarrow> date option \<times> flight list \<Rightarrow> issue list" where
  "utilization_of_day today aircraft_reg g =
     (let total_hours = sum_list (map (duration_hours today) (snd g)) in
      if of_int MAX_DAILY_FLIGHT_HOURS < total_hours then
        (case snd g of
           [] \<Rightarrow> []
         | first # _ \<Rightarrow>
             [new_issue Medium ''aircraft_validation'' (flight_id first) ''Multiple''
                ''excessive_utilization''
                [(''aircraft_registration'', DStr aircraft_reg),
                 (''date'', (case fst g of Some d \<Rightarrow> DInt d | None \<Rightarrow> DNone)),
                 (''maximum_allowed'', DInt MAX_DAILY_FLIGHT_HOURS)]])
      else [])"

definition validate_daily_utilization :: "date \<Rightarrow> flight list \<Rightarrow> string \<Rightarrow> issue list" where
  "validate_daily_utilization today flights aircraft_reg =
     (let flights_by_date = foldl (\<lambda>g f. group_insert (effective_from f) f g) [] flights
      in concat (map (utilization_of_day today aircraft_reg) flights_by_date))"

text \<open>
  The loop over the sorted flights of one aircraft; \<open>prev\<close> is the flight before the
  current one (\<^verbatim>\<open>sorted_flights[i - 1]\<close> when \<^verbatim>\<open>i > 0\<close>).
\<close>

fun validate_sorted ::
  "date \<Rightarrow> refdata \<Rightarrow> aircraft_info \<Rightarrow> string \<Rightarrow> flight option \<Rightarrow> flight list \<Rightarrow> issue list" where
  "validate_sorted today ref info reg prev [] = []"
| "validate_sorted today ref info reg prev (f # fs) =
     validate_aircraft_type f info @
     validate_maintenance ref f reg @
     (case prev of
        None \<Rightarrow> []
      | Some prev_flight \<Rightarrow>
          validate_turnaround today prev_flight f info @
          validate_routing_continuity prev_flight f) @
     validate_sorted today ref info reg (Some f) fs"

definition validate_aircraft_group ::
  "date \<Rightarrow> refdata \<Rightarrow> string \<times> flight list \<Rightarrow> issue list" where
  "validate_aircraft_group today ref g =
     (let aircraft_reg = fst g; aircraft_flights = snd g in
      case aircraft_row ref aircraft_reg of
        None \<Rightarrow>
          map (\<lambda>f. new_issue Critical ''aircraft_validation'' (flight_id f) (flight_number f)
                     ''aircraft_not_found'' [(''aircraft_registration'', DStr aircraft_reg)])
              aircraft_flights
      | Some info \<Rightarrow>
          if status info \<noteq> ''active'' then
            map (\<lambda>f. new_issue Critical ''aircraft_validation'' (flight_id f) (flight_number f)
                       ''aircraft_inactive''
                       [(''aircraft_registration'', DStr aircraft_reg),
                        (''aircraft_status'', DStr (status info))])
                aircraft_flights
          else
            (let sorted_flights = sort_key departure_time aircraft_flights in
             validate_sorted today ref info aircraft_reg None sorted_flights @
             validate_daily_utilization today sorted_flights aircraft_reg))"

definition aircraft_validate :: "date \<Rightarrow> refdata \<Rightarrow> flight list \<Rightarrow> issue list" where
  "aircraft_validate today ref flights =
     concat (map (validate_aircraft_group today ref) (group_by_aircraft flights))"

section \<open>RoutingValidator\<close>

definition AIRCRAFT_RANGES :: "(string \<times> int) list" where
  "AIRCRAFT_RANGES =
     [(''319'', 3750), (''320'', 3300), (''321'', 3200), (''733'', 3000), (''737'', 3000),
      (''738'', 3100), (''739'', 3300), (''330'', 6350), (''333'', 6350), (''359'', 8100),
      (''763'', 6385), (''764'', 6385), (''772'', 7730), (''773'', 7370), (''787'', 7355),
      (''788'', 7355), (''789'', 7635), (''E90'', 2300), (''E95'', 2300), (''CR7'', 2000),
      (''CR9'', 2400), (''DH4'', 1200)]"

definition AIRPORT_DISTANCES :: "((string \<times> string) \<times> rat) list" where
  "AIRPORT_DISTANCES =
     [((''JFK'', ''LHR''), 2999), ((''LAX'', ''NRT''), 4766), ((''LAX'', ''SYD''), 6511),
      ((''DFW'', ''LHR''), 4115), ((''ORD'', ''LHR''), 3428)]"

definition ROUTING_HUB_AIRPORTS :: "string set" where
  "ROUTING_HUB_AIRPORTS =
     set [''ATL'', ''DFW'', ''ORD'', ''LAX'', ''DEN'', ''JFK'', ''SFO'', ''IAH'', ''LHR'',
          ''CDG'', ''FRA'', ''AMS'', ''DXB'', ''SIN'', ''HKG'', ''ICN'', ''NRT'', ''SYD'']"

text \<open>
  \<^verbatim>\<open>_group_by_aircraft_and_date\<close>: a flight is grouped only when both its registration
  and its effective-from date are set.
\<close>

definition group_by_aircraft_and_date ::
  "flight list \<Rightarrow> ((string \<times> date) \<times> flight list) list" where
  "group_by_aircraft_and_date flights =
     foldl (\<lambda>grouped f.
              (case (aircraft_registration f, effective_from f) of
                 (Some reg, Some d) \<Rightarrow>
                   if reg \<noteq> [] then group_insert (reg, d) f grouped else grouped
               | _ \<Rightarrow> grouped))
           [] flights"

fun find_positioning_flight :: "flight \<Rightarrow> flight \<Rightarrow> flight list \<Rightarrow> flight option" where
  "find_positioning_flight current next_flight [] = None"
| "find_positioning_flight current next_flight (f # all_flights) =
     (if origin_airport f = destination_airport current \<and>
         destination_airport f = origin_airport next_flight \<and>
         arrival_time current < departure_time f \<and>
         departure_time f < departure_time next_flight
      then Some f
      else find_positioning_flight current next_flight all_flights)"

text \<open>The first loop of \<^verbatim>\<open>_validate_routing_chain\<close>, over consecutive pairs.\<close>

fun chain_issues :: "string \<Rightarrow> date \<Rightarrow> flight list \<Rightarrow> flight list \<Rightarrow> issue list" where
  "chain_issues reg d all_flights (current # next_flight # rest) =
     (if destination_airport current \<noteq> origin_airport next_flight \<and>
         find_positioning_flight current next_flight all_flights = None
      then
        [new_issue Critical ''routing_validation'' (flight_id next_flight)
           (flight_number next_flight) ''routing_discontinuity''
           [(''aircraft_registration'', DStr reg), (''date'', DInt d),
            (''previous_flight'', DStr (flight_number current)),
            (''previous_destination'', DStr (destination_airport current)),
            (''next_origin'', DStr (origin_airport next_flight))]]
      else []) @
     chain_issues reg d all_flights (next_flight # rest)"
| "chain_issues reg d all_flights _ = []"

definition validate_routing_chain :: "flight list \<Rightarrow> string \<Rightarrow> date \<Rightarrow> issue list" where
  "validate_routing_chain flights reg d =
     chain_issues reg d flights flights @
     (if flights \<noteq> [] then
        (let first_origin = origin_airport (hd flights);
             last_dest = destination_airport (last flights) in
         if first_origin \<noteq> last_dest then
           [new_issue Medium ''routing_validation'' (flight_id (last flights)) ''Daily pattern''
              ''non_circular_routing''
              [(''aircraft_registration'', DStr reg), (''date'', DInt d),
               (''first_origin'', DStr first_origin),
               (''last_destination'', DStr last_dest)]]
         else [])
      else [])"

definition get_distance :: "refdata \<Rightarrow> string \<Rightarrow> string \<Rightarrow> rat" where
  "get_distance ref origin dest =
     (case map_of AIRPORT_DISTANCES (origin, dest) of
        Some x \<Rightarrow> x
      | None \<Rightarrow>
          (case map_of AIRPORT_DISTANCES (dest, origin) of
             Some x \<Rightarrow> x
           | None \<Rightarrow>
               (case pair_distance ref origin dest of
                  Some x \<Rightarrow> if x \<noteq> 0 then x else 2000
                | None \<Rightarrow> 2000)))"

definition check_fuel_stop :: "refdata \<Rightarrow> flight \<Rightarrow> bool" where
  "check_fuel_stop ref f = (2 < leg_count ref (flight_id f))"

text \<open>
  \<^verbatim>\<open>_validate_range_limitations\<close>, for one flight. The source multiplies the distance
  by the float 1.1; the model multiplies by 11/10, so the two can differ when the
  product is within rounding error of the range. The same holds for the sum of hours
  in the utilization check.
\<close>

definition range_issue :: "refdata \<Rightarrow> flight \<Rightarrow> issue list" where
  "range_issue ref f =
     (let max_range = (case map_of AIRCRAFT_RANGES (aircraft_type f) of
                         Some r \<Rightarrow> r | None \<Rightarrow> 3000);
          distance = get_distance ref (origin_airport f) (destination_airport f);
          required_range = distance * (11 / 10) in
      if of_int max_range < required_range \<and> \<not> check_fuel_stop ref f then
        [new_issue Critical ''routing_validation'' (flight_id f) (flight_number f)
           ''range_exceeded''
           [(''aircraft_type'', DStr (aircraft_type f)),
            (''origin'', DStr (origin_airport f)),
            (''destination'', DStr (destination_airport f)),
            (''distance_nm'', DInt (py_round distance)),
            (''required_range_nm'', DInt (py_round required_range)),
            (''aircraft_range_nm'', DInt max_range),
            (''shortfall_nm'', DInt (py_round (required_range - of_int max_range)))]]
      else [])"

definition validate_range_limitations :: "refdata \<Rightarrow> flight list \<Rightarrow> issue list" where
  "validate_range_limitations ref flights = concat (map (range_issue ref) flights)"

definition validate_hub_connectivity :: "flight list \<Rightarrow> issue list" where
  "validate_hub_connectivity flights =
     (let hub_flights = length (filter (\<lambda>f. origin_airport f \<in> ROUTING_HUB_AIRPORTS \<or>
                                             destination_airport f \<in> ROUTING_HUB_AIRPORTS) flights);
          spoke_flights = length (filter (\<lambda>f. \<not> (origin_airport f \<in> ROUTING_HUB_AIRPORTS \<or>
                                             destination_airport f \<in> ROUTING_HUB_AIRPORTS)) flights)
      in if 3 < length flights \<and> hub_flights < spoke_flights then
           [new_issue Low ''routing_validation'' (flight_id (hd flights)) ''Daily pattern''
              ''low_hub_connectivity''
              [(''hub_flights'', DInt (int hub_flights)),
               (''spoke_flights'', DInt (int spoke_flights))]]
         else [])"

definition positioning_issue :: "flight \<Rightarrow> issue list" where
  "positioning_issue f =
     (if service_type f = ''positioning'' \<or> is_ferry f then
        [new_issue Low ''routing_validation'' (flight_id f) (flight_number f)
           ''positioning_flight''
           [(''origin'', DStr (origin_airport f)),
            (''destination'', DStr (destination_airport f))]]
      else [])"

definition check_positioning_efficiency :: "flight list \<Rightarrow> issue list" where
  "check_positioning_efficiency flights = concat (map positioning_issue flights)"

definition validate_routing_group :: "refdata \<Rightarrow> (string \<times> date) \<times> flight list \<Rightarrow> issue list" where
  "validate_routing_group ref g =
     (let aircraft_reg = fst (fst g); d = snd (fst g);
          sorted_flights = sort_key departure_time (snd g) in
      validate_routing_chain sorted_flights aircraft_reg d @
      validate_range_limitations ref sorted_flights @
      validate_hub_connectivity sorted_flights @
      check_positioning_efficiency sorted_flights)"

definition routing_validate :: "refdata \<Rightarrow> flight list \<Rightarrow> issue list" where
  "routing_validate ref flights =
     concat (map (validate_routing_group ref) (group_by_aircraft_and_date flights))"


section \<open>CurfewValidator\<close>

text \<open>
  An exception is a value of \<open>error\<close>; a function that can raise returns
  \<open>error + 'a\<close>, and \<open>bind_err\<close> runs the next statement unless the previous one
  raised.
\<close>

datatype error = TypeError string | ValueError string | InfrastructureError string

fun error_message :: "error \<Rightarrow> string" where
  "error_message (TypeError m) = m"
| "error_message (ValueError m) = m"
| "error_message (InfrastructureError m) = m"

definition bind_err :: "error + 'a \<Rightarrow> ('a \<Rightarrow> error + 'b) \<Rightarrow> error + 'b" where
  "bind_err m f = (case m of Inl e \<Rightarrow> Inl e | Inr x \<Rightarrow> f x)"

text \<open>
  The constraints dictionary of one airport. The dictionary built from the hardcoded
  table has no keys \<^verbatim>\<open>noise_category_required\<close> and \<^verbatim>\<open>exemption_types\<close>:
  \<^verbatim>\<open>get\<close> then returns \<^verbatim>\<open>None\<close> and the default \<^verbatim>\<open>[]\<close>, which the model stores.
\<close>

record constraints =
  airport_code :: string
  operating_hours_start :: "time option"
  operating_hours_end :: "time option"
  curfew_start :: "time option"
  curfew_end :: "time option"
  strict_curfew :: "bool option"
  max_night_movements :: "nat option"
  noise_category_required :: "string option"
  exemption_types :: "string list option"

definition CURFEW_AIRPORTS :: "(string \<times> time \<times> time \<times> bool) list" where
  "CURFEW_AIRPORTS =
     [(''LHR'', mk_time 23 0 0, mk_time 6 0 0, True),
      (''SYD'', mk_time 23 0 0, mk_time 6 0 0, True),
      (''FRA'', mk_time 23 0 0, mk_time 5 0 0, True),
      (''ZRH'', mk_time 23 30 0, mk_time 6 0 0, True),
      (''DCA'', mk_time 22 0 0, mk_time 7 0 0, True),
      (''SNA'', mk_time 22 0 0, mk_time 7 0 0, True),
      (''BUR'', mk_time 22 0 0, mk_time 7 0 0, True),
      (''LGA'', mk_time 22 0 0, mk_time 6 0 0, False),
      (''SAN'', mk_time 23 30 0, mk_time 6 30 0, False)]"

definition AIRCRAFT_NOISE_CATEGORIES :: "(string \<times> string list) list" where
  "AIRCRAFT_NOISE_CATEGORIES =
     [(''Chapter 3'', [''763'', ''764'', ''773'']),
      (''Chapter 4'', [''737'', ''738'', ''739'', ''320'', ''321'', ''787'', ''788'', ''789'']),
      (''Chapter 14'', [''320neo'', ''321neo'', ''A35K''])]"

definition constraints_of_row :: "constraint_row \<Rightarrow> constraints" where
  "constraints_of_row r =
     \<lparr>airport_code = row_airport_code r,
      operating_hours_start = row_operating_hours_start r,
      operating_hours_end = row_operating_hours_end r,
      curfew_start = row_curfew_start r,
      curfew_end = row_curfew_end r,
      strict_curfew = row_strict_curfew r,
      max_night_movements = row_max_night_movements r,
      noise_category_required = row_noise_category_required r,
      exemption_types = row_exemption_types r\<rparr>"

text \<open>
  \<^verbatim>\<open>_get_airport_constraints\<close>: the rows of the airport in effect on
  \<^verbatim>\<open>CURRENT_DATE\<close>, the latest effective-from date first, and the first of them. Among
  rows with the same effective-from date SQL fixes no order; the model keeps the order of
  the list \<open>airport_constraints\<close>, which thus stands for the order in which the database
  returns the rows, and not only for the contents of the table.
\<close>

definition get_airport_constraints :: "date \<Rightarrow> refdata \<Rightarrow> string \<Rightarrow> constraints option" where
  "get_airport_constraints today ref code =
     (case sort_key (\<lambda>r. - row_effective_from r)
             (filter (\<lambda>r. row_airport_code r = code \<and> row_effective_from r \<le> today \<and>
                           (case row_effective_to r of None \<Rightarrow> True | Some e \<Rightarrow> today \<le> e))
                     (airport_constraints ref)) of
        [] \<Rightarrow> None
      | r # _ \<Rightarrow> Some (constraints_of_row r))"

text \<open>
  The constraints \<^verbatim>\<open>_validate_airport_hours\<close> works with: those of the database, else
  those of the hardcoded table, else none (the airport operates around the clock).
\<close>

definition airport_constraints_for :: "date \<Rightarrow> refdata \<Rightarrow> string \<Rightarrow> constraints option" where
  "airport_constraints_for today ref airport =
     (case get_airport_constraints today ref airport of
        Some c \<Rightarrow> Some c
      | None \<Rightarrow>
          (case map_of CURFEW_AIRPORTS airport of
             Some (cstart, cend, strict) \<Rightarrow>
               Some \<lparr>airport_code = airport,
                     operating_hours_start = Some (mk_time 0 0 0),
                     operating_hours_end = Some (mk_time 23 59 0),
                     curfew_start = Some cstart, curfew_end = Some cend,
                     strict_curfew = Some strict, max_night_movements = None,
                     noise_category_required = None, exemption_types = Some []\<rparr>
           | None \<Rightarrow> None))"

definition is_within_operating_hours :: "time \<Rightarrow> time \<Rightarrow> time \<Rightarrow> bool" where
  "is_within_operating_hours sched_time start_time end_time =
     (if end_time < start_time
      then start_time \<le> sched_time \<or> sched_time \<le> end_time
      else start_time \<le> sched_time \<and> sched_time \<le> end_time)"

definition is_during_curfew :: "time \<Rightarrow> time \<Rightarrow> time \<Rightarrow> bool" where
  "is_during_curfew sched_time start_time end_time =
     (if end_time < start_time
      then start_time \<le> sched_time \<or> sched_time \<le> end_time
      else start_time \<le> sched_time \<and> sched_time \<le> end_time)"

text \<open>
  \<^verbatim>\<open>_is_during_curfew\<close> on the curfew window of a constraints dictionary, as the
  quota and noise checks call it: a missing bound reaches the comparison as \<^verbatim>\<open>None\<close>,
  which raises \<^verbatim>\<open>TypeError\<close>.
\<close>

definition during_curfew_of :: "time \<Rightarrow> constraints \<Rightarrow> error + bool" where
  "during_curfew_of sched c =
     (case (curfew_start c, curfew_end c) of
        (Some cs, Some ce) \<Rightarrow> Inr (is_during_curfew sched cs ce)
      | _ \<Rightarrow> Inl (TypeError ''< not supported for NoneType''))"

definition is_quiet_aircraft :: "string \<Rightarrow> bool" where
  "is_quiet_aircraft t =
     (t \<in> set (case map_of AIRCRAFT_NOISE_CATEGORIES ''Chapter 14'' of
                  Some ts \<Rightarrow> ts | None \<Rightarrow> []))"

definition get_noise_category :: "string \<Rightarrow> string" where
  "get_noise_category t = category_of AIRCRAFT_NOISE_CATEGORIES ''Chapter 3'' t"

text \<open>\<^verbatim>\<open>x in exemption_types\<close>, which raises when the list is \<^verbatim>\<open>None\<close>.\<close>

definition in_exemption_types :: "string \<Rightarrow> constraints \<Rightarrow> error + bool" where
  "in_exemption_types x c =
     (case exemption_types c of
        None \<Rightarrow> Inl (TypeError ''argument of type NoneType is not iterable'')
      | Some ets \<Rightarrow> Inr (x \<in> set ets))"

definition check_curfew_exemption ::
  "refdata \<Rightarrow> flight \<Rightarrow> string \<Rightarrow> string \<Rightarrow> constraints \<Rightarrow> error + string option" where
  "check_curfew_exemption ref f airport operation c =
     (case slot_exemption ref airport (flight_id f) operation of
        Some (ex_type, ex_reason) \<Rightarrow> Inr (Some (ex_type @ '': '' @ ex_reason))
      | None \<Rightarrow>
          bind_err (if service_type f = ''F'' then in_exemption_types ''cargo'' c else Inr False)
            (\<lambda>cargo.
               if cargo then Inr (Some ''Cargo exemption'')
               else
                 bind_err (if is_quiet_aircraft (aircraft_type f)
                           then in_exemption_types ''quiet_aircraft'' c else Inr False)
                   (\<lambda>quiet.
                      if quiet then Inr (Some ''Quiet aircraft exemption'') else Inr None)))"

text \<open>The operating-hours block of \<^verbatim>\<open>_validate_airport_hours\<close>.\<close>

definition operating_hours_issues ::
  "flight \<Rightarrow> string \<Rightarrow> string \<Rightarrow> time \<Rightarrow> constraints \<Rightarrow> issue list" where
  "operating_hours_issues f airport operation sched c =
     (case (operating_hours_start c, operating_hours_end c) of
        (Some ohs, Some ohe) \<Rightarrow>
          if \<not> is_within_operating_hours sched ohs ohe then
            [new_issue Critical ''curfew_validation'' (flight_id f) (flight_number f)
               ''outside_operating_hours''
               [(''airport'', DStr airport), (''operation'', DStr operation),
                (''scheduled_time'', DTime sched)]]
          else []
      | _ \<Rightarrow> [])"

text \<open>The curfew block of \<^verbatim>\<open>_validate_airport_hours\<close>.\<close>

definition curfew_issues ::
  "refdata \<Rightarrow> flight \<Rightarrow> string \<Rightarrow> string \<Rightarrow> time \<Rightarrow> constraints \<Rightarrow> error + issue list" where
  "curfew_issues ref f airport operation sched c =
     (case (curfew_start c, curfew_end c) of
        (Some cs, Some ce) \<Rightarrow>
          if is_during_curfew sched cs ce then
            bind_err (check_curfew_exemption ref f airport operation c)
              (\<lambda>has_exemption.
                 let sev = (if strict_curfew c = Some True then Critical else High) in
                 if \<not> truthy_str has_exemption then
                   Inr [new_issue sev ''curfew_validation'' (flight_id f) (flight_number f)
                          ''curfew_violation''
                          [(''airport'', DStr airport), (''operation'', DStr operation),
                           (''scheduled_time'', DTime sched),
                           (''strict_curfew'',
                              (case strict_curfew c of Some b \<Rightarrow> DBool b | None \<Rightarrow> DNone))]]
                 else
                   Inr [new_issue Low ''curfew_validation'' (flight_id f) (flight_number f)
                          ''curfew_exemption_used''
                          [(''airport'', DStr airport), (''operation'', DStr operation),
                           (''scheduled_time'', DTime sched),
                           (''exemption_reason'',
                              (case has_exemption of Some r \<Rightarrow> DStr r | None \<Rightarrow> DNone))]])
          else Inr []
      | _ \<Rightarrow> Inr [])"

definition check_night_movement_quota ::
  "refdata \<Rightarrow> flight \<Rightarrow> string \<Rightarrow> string \<Rightarrow> time \<Rightarrow> constraints \<Rightarrow> error + issue list" where
  "check_night_movement_quota ref f airport operation sched c =
     (case max_night_movements c of
        None \<Rightarrow> Inr []
      | Some max_movements \<Rightarrow>
          if max_movements = 0 then Inr []
          else
            bind_err (during_curfew_of sched c)
              (\<lambda>during.
                 if \<not> during then Inr []
                 else
                   (let current_movements =
                          night_movements ref airport (effective_from f)
                            (the (curfew_start c)) (the (curfew_end c)) in
                    if max_movements \<le> current_movements then
                      Inr [new_issue High ''curfew_validation'' (flight_id f) (flight_number f)
                             ''night_movement_quota_exceeded''
                             [(''airport'', DStr airport), (''operation'', DStr operation),
                              (''scheduled_time'', DTime sched),
                              (''current_movements'', DInt (int current_movements)),
                              (''max_movements'', DInt (int max_movements))]]
                    else Inr [])))"

text \<open>\<^verbatim>\<open>list.index\<close>, which raises \<^verbatim>\<open>ValueError\<close> when the element is not in the list.\<close>

fun index_of :: "string list \<Rightarrow> string \<Rightarrow> error + nat" where
  "index_of [] x = Inl (ValueError ''not in list'')"
| "index_of (y # ys) x =
     (if x = y then Inr 0 else bind_err (index_of ys x) (\<lambda>i. Inr (Suc i)))"

definition category_hierarchy :: "string list" where
  "category_hierarchy = [''Chapter 3'', ''Chapter 4'', ''Chapter 14'']"

definition check_noise_restrictions ::
  "flight \<Rightarrow> string \<Rightarrow> string \<Rightarrow> time \<Rightarrow> constraints \<Rightarrow> error + issue list" where
  "check_noise_restrictions f airport operation sched c =
     (if \<not> truthy_str (noise_category_required c) then Inr []
      else
        bind_err (during_curfew_of sched c)
          (\<lambda>during.
             if \<not> during then Inr []
             else
               (let required_category = the (noise_category_required c);
                    aircraft_category = get_noise_category (aircraft_type f) in
                bind_err (index_of category_hierarchy aircraft_category)
                  (\<lambda>i. bind_err (index_of category_hierarchy required_category)
                     (\<lambda>j. if i < j then
                             Inr [new_issue High ''curfew_validation'' (flight_id f)
                                    (flight_number f) ''noise_category_violation''
                                    [(''airport'', DStr airport), (''operation'', DStr operation),
                                     (''scheduled_time'', DTime sched),
                                     (''aircraft_type'', DStr (aircraft_type f)),
                                     (''aircraft_noise_category'', DStr aircraft_category),
                                     (''required_category'', DStr required_category)]]
                           else Inr [])))))"

definition validate_airport_hours ::
  "date \<Rightarrow> refdata \<Rightarrow> flight \<Rightarrow> string \<Rightarrow> string \<Rightarrow> time \<Rightarrow> error + issue list" where
  "validate_airport_hours today ref f airport operation sched =
     (case airport_constraints_for today ref airport of
        None \<Rightarrow> Inr []
      | Some c \<Rightarrow>
          bind_err (curfew_issues ref f airport operation sched c)
            (\<lambda>curfew.
               bind_err (check_night_movement_quota ref f airport operation sched c)
                 (\<lambda>night.
                    bind_err (check_noise_restrictions f airport operation sched c)
                      (\<lambda>noise.
                         Inr (operating_hours_issues f airport operation sched c @
                              curfew @ night @ noise)))))"

fun curfew_validate :: "date \<Rightarrow> refdata \<Rightarrow> flight list \<Rightarrow> error + issue list" where
  "curfew_validate today ref [] = Inr []"
| "curfew_validate today ref (f # flights) =
     bind_err (validate_airport_hours today ref f (origin_airport f) ''departure''
                 (departure_time f))
       (\<lambda>dep_issues.
          bind_err (validate_airport_hours today ref f (destination_airport f) ''arrival''
                      (arrival_time f))
            (\<lambda>arr_issues.
               bind_err (curfew_validate today ref flights)
                 (\<lambda>rest. Inr (dep_issues @ arr_issues @ rest))))"


section \<open>ScheduleValidationAgent: the workflow\<close>

datatype validation_status = VALID | WARNINGS | CRITICAL_ERRORS | FAILED

type_synonym dict = "(string \<times> string) list"

text \<open>
  \<^verbatim>\<open>ValidationState\<close>, without the three wall-clock fields. The result dictionary
  \<^verbatim>\<open>validation_results\<close> maps a category name to its issue list.
\<close>

record validation_state =
  schedule_id :: string
  validate_all :: bool
  flight_ids_to_validate :: "string list option"
  flights_to_validate :: "flight list"
  schedule_metadata :: dict
  validation_results :: "(string \<times> issue list) list"
  overall_status :: validation_status
  validation_summary :: dict
  llm_tokens_used :: nat
  llm_calls_made :: nat

text \<open>
  What the agent is built from: the two queries of \<^verbatim>\<open>load_schedule_data\<close>, the eight
  validator objects (a validator returns its issues or raises), the conflict analyzer
  (it returns the tokens it used) and the report generator.
\<close>

record agent =
  schedule_row :: "string \<Rightarrow> error + dict option"
  flights_of_schedule :: "string \<Rightarrow> error + flight list"
  flights_by_ids :: "string list option \<Rightarrow> error + flight list"
  slot_validator :: "flight list \<Rightarrow> error + issue list"
  aircraft_validator :: "flight list \<Rightarrow> error + issue list"
  crew_validator :: "flight list \<Rightarrow> error + issue list"
  mct_validator :: "flight list \<Rightarrow> error + issue list"
  curfew_validator :: "flight list \<Rightarrow> error + issue list"
  regulatory_validator :: "flight list \<Rightarrow> error + issue list"
  routing_validator :: "flight list \<Rightarrow> error + issue list"
  pattern_validator :: "flight list \<Rightarrow> error + issue list"
  enable_llm_analysis :: bool
  conflict_analyzer :: "issue list \<Rightarrow> dict \<Rightarrow> error + nat"
  report_generator :: "(string \<times> issue list) list \<Rightarrow> dict \<Rightarrow> flight list \<Rightarrow> error + dict"

text \<open>The assignment \<^verbatim>\<open>d[k] = v\<close> on a dictionary kept in insertion order.\<close>

fun dict_set :: "'k \<Rightarrow> 'v \<Rightarrow> ('k \<times> 'v) list \<Rightarrow> ('k \<times> 'v) list" where
  "dict_set k v [] = [(k, v)]"
| "dict_set k v ((k', v') # rest) =
     (if k = k' then (k', v) # rest else (k', v') # dict_set k v rest)"

definition initial_state :: "string \<Rightarrow> string list option \<Rightarrow> validation_state" where
  "initial_state sid flight_ids =
     \<lparr>schedule_id = sid, validate_all = (flight_ids = None),
      flight_ids_to_validate = flight_ids, flights_to_validate = [],
      schedule_metadata = [], validation_results = [], overall_status = VALID,
      validation_summary = [], llm_tokens_used = 0, llm_calls_made = 0\<rparr>"

definition load_schedule_data :: "agent \<Rightarrow> validation_state \<Rightarrow> error + validation_state" where
  "load_schedule_data a s =
     bind_err (schedule_row a (schedule_id s))
       (\<lambda>row.
          case row of
            None \<Rightarrow> Inl (ValueError (''Schedule not found: '' @ schedule_id s))
          | Some metadata \<Rightarrow>
              bind_err (if validate_all s then flights_of_schedule a (schedule_id s)
                        else flights_by_ids a (flight_ids_to_validate s))
                (\<lambda>flights.
                   Inr (s\<lparr>schedule_metadata := metadata, flights_to_validate := flights\<rparr>)))"

definition validate_airport_slots :: "agent \<Rightarrow> validation_state \<Rightarrow> error + validation_state" where
  "validate_airport_slots a s =
     bind_err (slot_validator a (flights_to_validate s))
       (\<lambda>issues. Inr (s\<lparr>validation_results :=
                            dict_set ''slot_validation'' issues (validation_results s)\<rparr>))"

definition validate_aircraft_availability ::
  "agent \<Rightarrow> validation_state \<Rightarrow> error + validation_state" where
  "validate_aircraft_availability a s =
     bind_err (aircraft_validator a (flights_to_validate s))
       (\<lambda>issues. Inr (s\<lparr>validation_results :=
                            dict_set ''aircraft_validation'' issues (validation_results s)\<rparr>))"

definition validate_crew_feasibility :: "agent \<Rightarrow> validation_state \<Rightarrow> error + validation_state" where
  "validate_crew_feasibility a s =
     bind_err (crew_validator a (flights_to_validate s))
       (\<lambda>issues. Inr (s\<lparr>validation_results :=
                            dict_set ''crew_validation'' issues (validation_results s)\<rparr>))"

definition validate_minimum_connect_times ::
  "agent \<Rightarrow> validation_state \<Rightarrow> error + validation_state" where
  "validate_minimum_connect_times a s =
     bind_err (mct_validator a (flights_to_validate s))
       (\<lambda>issues. Inr (s\<lparr>validation_results :=
                            dict_set ''mct_validation'' issues (validation_results s)\<rparr>))"

definition validate_airport_hours_node ::
  "agent \<Rightarrow> validation_state \<Rightarrow> error + validation_state" where
  "validate_airport_hours_node a s =
     bind_err (curfew_validator a (flights_to_validate s))
       (\<lambda>issues. Inr (s\<lparr>validation_results :=
                            dict_set ''curfew_validation'' issues (validation_results s)\<rparr>))"

definition validate_regulatory_compliance ::
  "agent \<Rightarrow> validation_state \<Rightarrow> error + validation_state" where
  "validate_regulatory_compliance a s =
     bind_err (regulatory_validator a (flights_to_validate s))
       (\<lambda>issues. Inr (s\<lparr>validation_results :=
                            dict_set ''regulatory_validation'' issues (validation_results s)\<rparr>))"

definition validate_aircraft_routing :: "agent \<Rightarrow> validation_state \<Rightarrow> error + validation_state" where
  "validate_aircraft_routing a s =
     bind_err (routing_validator a (flights_to_validate s))
       (\<lambda>issues. Inr (s\<lparr>validation_results :=
                            dict_set ''routing_validation'' issues (validation_results s)\<rparr>))"

definition validate_schedule_patterns :: "agent \<Rightarrow> validation_state \<Rightarrow> error + validation_state" where
  "validate_schedule_patterns a s =
     bind_err (pattern_validator a (flights_to_validate s))
       (\<lambda>issues. Inr (s\<lparr>validation_results :=
                            dict_set ''pattern_validation'' issues (validation_results s)\<rparr>))"

definition compile_validation_results :: "validation_state \<Rightarrow> validation_state" where
  "compile_validation_results s =
     (let total_issues = sum_list (map (\<lambda>(k, issues). length issues) (validation_results s));
          critical_count =
            sum_list (map (\<lambda>(k, issues). length (filter (\<lambda>i. severity i = Critical) issues))
                          (validation_results s))
      in if 0 < critical_count then s\<lparr>overall_status := CRITICAL_ERRORS\<rparr>
         else if 0 < total_issues then s\<lparr>overall_status := WARNINGS\<rparr>
         else s\<lparr>overall_status := VALID\<rparr>)"

text \<open>
  \<^verbatim>\<open>analyze_conflicts_with_llm\<close> copies the critical and high issues, so what it adds
  to them does not reach the state; an exception of the analyzer is caught and logged.
\<close>

definition analyze_conflicts_with_llm :: "agent \<Rightarrow> validation_state \<Rightarrow> validation_state" where
  "analyze_conflicts_with_llm a s =
     (if \<not> enable_llm_analysis a then s
      else
        (let critical_issues =
               concat (map (\<lambda>(cat, issues).
                              map (\<lambda>i. i\<lparr>category := cat\<rparr>)
                                  (filter (\<lambda>i. severity i = Critical \<or> severity i = High) issues))
                           (validation_results s))
         in if critical_issues = [] then s
            else
              (case conflict_analyzer a critical_issues (schedule_metadata s) of
                 Inr tokens_used \<Rightarrow>
                   s\<lparr>llm_tokens_used := llm_tokens_used s + tokens_used,
                     llm_calls_made := llm_calls_made s + 1\<rparr>
               | Inl e \<Rightarrow> s)))"

definition generate_validation_report ::
  "agent \<Rightarrow> validation_state \<Rightarrow> error + validation_state" where
  "generate_validation_report a s =
     bind_err (report_generator a (validation_results s) (schedule_metadata s)
                 (flights_to_validate s))
       (\<lambda>summary. Inr (s\<lparr>validation_summary := summary\<rparr>))"

text \<open>
  \<^verbatim>\<open>self.graph.invoke\<close>: the nodes in the order in which \<^verbatim>\<open>_build_graph\<close> adds
  them. The eight validator nodes, which the graph may run in parallel, each write
  their own key of the results and read only the flights; the model runs them in turn.
\<close>

definition invoke :: "agent \<Rightarrow> validation_state \<Rightarrow> error + validation_state" where
  "invoke a s0 =
     bind_err (load_schedule_data a s0) (\<lambda>s.
     bind_err (validate_airport_slots a s) (\<lambda>s.
     bind_err (validate_aircraft_availability a s) (\<lambda>s.
     bind_err (validate_crew_feasibility a s) (\<lambda>s.
     bind_err (validate_minimum_connect_times a s) (\<lambda>s.
     bind_err (validate_airport_hours_node a s) (\<lambda>s.
     bind_err (validate_regulatory_compliance a s) (\<lambda>s.
     bind_err (validate_aircraft_routing a s) (\<lambda>s.
     bind_err (validate_schedule_patterns a s) (\<lambda>s.
     generate_validation_report a
       (analyze_conflicts_with_llm a (compile_validation_results s)))))))))))"

text \<open>
  What \<^verbatim>\<open>validate\<close> returns: the formatted final state, or, when any exception
  reaches its \<^verbatim>\<open>except Exception\<close>, the schedule id with the status \<^verbatim>\<open>failed\<close> and
  the text of the exception.
\<close>

record completed =
  c_schedule_id :: string
  c_status :: validation_status
  c_summary :: dict
  c_validation_results :: "(string \<times> issue list) list"
  c_schedule_metadata :: dict
  c_flights_validated :: nat
  c_llm_tokens_used :: nat
  c_llm_calls_made :: nat

datatype validation_result = Completed completed | Aborted string string

definition format_result :: "validation_state \<Rightarrow> completed" where
  "format_result s =
     \<lparr>c_schedule_id = schedule_id s, c_status = overall_status s,
      c_summary = validation_summary s, c_validation_results = validation_results s,
      c_schedule_metadata = schedule_metadata s,
      c_flights_validated = length (flights_to_validate s),
      c_llm_tokens_used = llm_tokens_used s, c_llm_calls_made = llm_calls_made s\<rparr>"

definition validate :: "agent \<Rightarrow> string \<Rightarrow> string list option \<Rightarrow> validation_result" where
  "validate a sid flight_ids =
     (case invoke a (initial_state sid flight_ids) of
        Inr final_state \<Rightarrow> Completed (format_result final_state)
      | Inl e \<Rightarrow> Aborted sid (error_message e))"

fun result_status :: "validation_result \<Rightarrow> validation_status" where
  "result_status (Completed c) = c_status c"
| "result_status (Aborted sid msg) = FAILED"

fun result_issues :: "validation_result \<Rightarrow> (string \<times> issue list) list option" where
  "result_issues (Completed c) = Some (c_validation_results c)"
| "result_issues (Aborted sid msg) = None"


text \<open>The eight validator nodes in a row, and the eight validators as a list.\<close>

definition run_validators :: "agent \<Rightarrow> validation_state \<Rightarrow> error + validation_state" where
  "run_validators a s0 =
     bind_err (validate_airport_slots a s0) (\<lambda>s.
     bind_err (validate_aircraft_availability a s) (\<lambda>s.
     bind_err (validate_crew_feasibility a s) (\<lambda>s.
     bind_err (validate_minimum_connect_times a s) (\<lambda>s.
     bind_err (validate_airport_hours_node a s) (\<lambda>s.
     bind_err (validate_regulatory_compliance a s) (\<lambda>s.
     bind_err (validate_aircraft_routing a s) (\<lambda>s.
     validate_schedule_patterns a s)))))))"

definition validators_of :: "agent \<Rightarrow> (flight list \<Rightarrow> error + issue list) list" where
  "validators_of a =
     [slot_validator a, aircraft_validator a, crew_validator a, mct_validator a,
      curfew_validator a, regulatory_validator a, routing_validator a, pattern_validator a]"

text \<open>
  An agent for examples: schedule \<open>S1\<close> exists and holds the sample flight, no validator
  finds anything, and the report is empty.
\<close>

definition quiet_agent :: agent where
  "quiet_agent =
     \<lparr>schedule_row = (\<lambda>sid. Inr (if sid = ''S1'' then Some [(''season_code'', ''W25'')] else None)),
      flights_of_schedule = (\<lambda>sid. Inr [sample_flight]),
      flights_by_ids = (\<lambda>ids. Inr [sample_flight]),
      slot_validator = (\<lambda>fs. Inr []),
      aircraft_validator = (\<lambda>fs. Inr []),
      crew_validator = (\<lambda>fs. Inr []),
      mct_validator = (\<lambda>fs. Inr []),
      curfew_validator = (\<lambda>fs. Inr []),
      regulatory_validator = (\<lambda>fs. Inr []),
      routing_validator = (\<lambda>fs. Inr []),
      pattern_validator = (\<lambda>fs. Inr []),
      enable_llm_analysis = False,
      conflict_analyzer = (\<lambda>issues md. Inr 0),
      report_generator = (\<lambda>results md fs. Inr [])\<rparr>"


definition slot_down_agent :: agent where
  "slot_down_agent =
     quiet_agent\<lparr>slot_validator :=
       (\<lambda>fs. Inl (InfrastructureError ''slot database unreachable''))\<rparr>"

definition regulatory_down_agent :: agent where
  "regulatory_down_agent =
     quiet_agent\<lparr>regulatory_validator :=
       (\<lambda>fs. Inl (InfrastructureError ''bilateral agreements query timed out''))\<rparr>"

definition pattern_error_agent :: agent where
  "pattern_error_agent =
     quiet_agent\<lparr>pattern_validator :=
       (\<lambda>fs. Inl (TypeError ''object of type NoneType has no len()''))\<rparr>"

definition critical_state :: validation_state where
  "critical_state =
     (initial_state ''S1'' None)
       \<lparr>validation_results :=
          [(''slot_validation'', []),
           (''pattern_validation'',
              validate_operating_days (sample_flight\<lparr>operating_days := ''123''\<rparr>))]\<rparr>"

section \<open>Reference data and flights for examples\<close>

definition empty_ref :: refdata where
  "empty_ref =
     \<lparr>mct_minutes = (\<lambda>airport arr dep. None),
      leg_terminal = (\<lambda>fid airport leg. None),
      aircraft_row = (\<lambda>reg. None),
      maintenance_row = (\<lambda>reg t. None),
      airport_constraints = [],
      slot_exemption = (\<lambda>airport fid operation. None),
      night_movements = (\<lambda>airport d cs ce. 0),
      leg_count = (\<lambda>fid. 0),
      pair_distance = (\<lambda>origin dest. None)\<rparr>"

text \<open>
  A constraints row for PTY that takes effect on day 20100: a strict curfew from 07:00
  to 09:00.
\<close>

definition pty_row :: constraint_row where
  "pty_row =
     \<lparr>row_airport_code = ''PTY'', row_effective_from = 20100, row_effective_to = None,
      row_operating_hours_start = None, row_operating_hours_end = None,
      row_curfew_start = Some (mk_time 7 0 0), row_curfew_end = Some (mk_time 9 0 0),
      row_strict_curfew = Some True, row_max_night_movements = None,
      row_noise_category_required = None, row_exemption_types = Some []\<rparr>"

definition dated_ref :: refdata where
  "dated_ref = empty_ref\<lparr>airport_constraints := [pty_row]\<rparr>"

definition lhr_departure :: flight where
  "lhr_departure =
     sample_flight\<lparr>origin_airport := ''LHR'', departure_time := mk_time 23 0 0\<rparr>"

text \<open>The constraints dictionary built for LHR from the hardcoded table.\<close>

definition lhr_constraints :: constraints where
  "lhr_constraints =
     \<lparr>airport_code = ''LHR'',
      operating_hours_start = Some (mk_time 0 0 0),
      operating_hours_end = Some (mk_time 23 59 0),
      curfew_start = Some (mk_time 23 0 0), curfew_end = Some (mk_time 6 0 0),
      strict_curfew = Some True, max_night_movements = None,
      noise_category_required = None, exemption_types = Some []\<rparr>"

text \<open>
  A required noise category that \<^verbatim>\<open>_check_noise_restrictions\<close> can rank: none, or one
  of the three chapters.
\<close>

definition noise_requirement_wellformed :: "constraints \<Rightarrow> bool" where
  "noise_requirement_wellformed c =
     (case noise_category_required c of
        None \<Rightarrow> True
      | Some r \<Rightarrow> r = [] \<or> r \<in> set category_hierarchy)"

text \<open>
  The row of PTY with no exemption types (\<^verbatim>\<open>NULL\<close> in the column), and a cargo flight
  (service type \<open>F\<close>) that leaves PTY at 07:00, the start of the curfew.
\<close>

definition null_exemptions_row :: constraint_row where
  "null_exemptions_row = pty_row\<lparr>row_exemption_types := None\<rparr>"

definition null_exemptions_ref :: refdata where
  "null_exemptions_ref = empty_ref\<lparr>airport_constraints := [null_exemptions_row]\<rparr>"

definition cargo_departure :: flight where
  "cargo_departure = sample_flight\<lparr>departure_time := mk_time 7 0 0, service_type := ''F''\<rparr>"

text \<open>
  The row of PTY with the required noise category \<open>Chapter 2\<close>, and a passenger flight
  that leaves PTY at 09:00, the end of the curfew.
\<close>

definition chapter2_row :: constraint_row where
  "chapter2_row = pty_row\<lparr>row_noise_category_required := Some ''Chapter 2''\<rparr>"

definition chapter2_ref :: refdata where
  "chapter2_ref = empty_ref\<lparr>airport_constraints := [chapter2_row]\<rparr>"

definition curfew_end_departure :: flight where
  "curfew_end_departure = sample_flight\<lparr>departure_time := mk_time 9 0 0\<rparr>"

text \<open>
  Two rows for PTY with the same effective-from date, one with a strict curfew and one
  without, as the database may return them: in this order or in the other.
\<close>

definition lenient_row :: constraint_row where
  "lenient_row = pty_row\<lparr>row_strict_curfew := Some False\<rparr>"

definition tied_ref :: refdata where
  "tied_ref = empty_ref\<lparr>airport_constraints := [pty_row, lenient_row]\<rparr>"

definition tied_ref_swapped :: refdata where
  "tied_ref_swapped = empty_ref\<lparr>airport_constraints := [lenient_row, pty_row]\<rparr>"

text \<open>
  Scenario B: an inbound that arrives at the hub ORD at 10:00, and an outbound of
  another carrier that leaves ORD at 10:40; both legs are domestic. In \<open>terminal_ref\<close>
  both legs have a terminal record, with the same terminal.
\<close>

definition scenario_b_inbound :: flight where
  "scenario_b_inbound =
     \<lparr>flight_id = ''b-in'', flight_number = ''AA100'', carrier_code = ''AA'',
      origin_airport = ''JFK'', destination_airport = ''ORD'',
      departure_time = mk_time 8 0 0, arrival_time = mk_time 10 0 0,
      operating_days = ''1234567'', effective_from = Some 20089, effective_to = Some 20178,
      aircraft_type = ''738'', service_type = ''J'', frequency_per_week = Some 7,
      aircraft_registration = None, is_ferry = False\<rparr>"

definition scenario_b_outbound :: flight where
  "scenario_b_outbound =
     \<lparr>flight_id = ''b-out'', flight_number = ''UA200'', carrier_code = ''UA'',
      origin_airport = ''ORD'', destination_airport = ''LAX'',
      departure_time = mk_time 10 40 0, arrival_time = mk_time 13 0 0,
      operating_days = ''1234567'', effective_from = Some 20089, effective_to = Some 20178,
      aircraft_type = ''738'', service_type = ''J'', frequency_per_week = Some 7,
      aircraft_registration = None, is_ferry = False\<rparr>"

definition terminal_ref :: refdata where
  "terminal_ref = empty_ref\<lparr>leg_terminal := (\<lambda>fid airport leg. Some (Some ''T1''))\<rparr>"

text \<open>The same connection with both legs on one carrier.\<close>

definition online_outbound :: flight where
  "online_outbound = scenario_b_outbound\<lparr>flight_number := ''AA200'', carrier_code := ''AA''\<rparr>"

text \<open>
  Two flights of the aircraft HP-1234, a 738 (narrow body, 45 minutes of turnaround):
  the first lands at 23:30, the second leaves at 00:15, which is 45 minutes later
  across midnight. In \<open>fleet_ref\<close> the aircraft is registered and active.
\<close>

definition late_arrival :: flight where
  "late_arrival =
     \<lparr>flight_id = ''t-1'', flight_number = ''CM201'', carrier_code = ''CM'',
      origin_airport = ''PTY'', destination_airport = ''MIA'',
      departure_time = mk_time 0 5 0, arrival_time = mk_time 23 30 0,
      operating_days = ''1234567'', effective_from = Some 20089, effective_to = Some 20178,
      aircraft_type = ''738'', service_type = ''J'', frequency_per_week = Some 7,
      aircraft_registration = Some ''HP-1234'', is_ferry = False\<rparr>"

definition early_departure :: flight where
  "early_departure =
     \<lparr>flight_id = ''t-2'', flight_number = ''CM202'', carrier_code = ''CM'',
      origin_airport = ''MIA'', destination_airport = ''PTY'',
      departure_time = mk_time 0 15 0, arrival_time = mk_time 3 0 0,
      operating_days = ''1234567'', effective_from = Some 20089, effective_to = Some 20178,
      aircraft_type = ''738'', service_type = ''J'', frequency_per_week = Some 7,
      aircraft_registration = Some ''HP-1234'', is_ferry = False\<rparr>"

definition hp1234 :: aircraft_info where
  "hp1234 = \<lparr>registration = ''HP-1234'', info_aircraft_type = ''738'', status = ''active''\<rparr>"

definition fleet_ref :: refdata where
  "fleet_ref =
     empty_ref\<lparr>aircraft_row := (\<lambda>reg. if reg = ''HP-1234'' then Some hp1234 else None)\<rparr>"

text \<open>All the flights of a dictionary of groups.\<close>

definition group_values :: "('k \<times> 'v list) list \<Rightarrow> 'v set" where
  "group_values g = (\<Union>p \<in> set g. set (snd p))"

section \<open>Basic facts\<close>

lemma new_issue_sel [simp]:
  "severity (new_issue sev cat fid fno ty ds) = sev"
  "category (new_issue sev cat fid fno ty ds) = cat"
  "i_flight_id (new_issue sev cat fid fno ty ds) = fid"
  "i_flight_number (new_issue sev cat fid fno ty ds) = fno"
  "issue_type (new_issue sev cat fid fno ty ds) = ty"
  "details (new_issue sev cat fid fno ty ds) = ds"
  by (simp_all add: new_issue_def)

lemma bind_err_simps [simp]:
  "bind_err (Inl e) f = Inl e"
  "bind_err (Inr x) f = f x"
  by (simp_all add: bind_err_def)

lemma bind_err_Inr_iff: "bind_err m f = Inr y \<longleftrightarrow> (\<exists>x. m = Inr x \<and> f x = Inr y)"
  by (cases m) simp_all

lemma sum_list_pos_iff: "0 < sum_list (map f xs) \<longleftrightarrow> (\<exists>x \<in> set xs. 0 < (f x :: nat))"
  by (induction xs) auto

section \<open>The overall status\<close>

lemma compile_status:
  "overall_status (compile_validation_results s) =
     (if \<exists>(k, issues) \<in> set (validation_results s). \<exists>i \<in> set issues. severity i = Critical
      then CRITICAL_ERRORS
      else if \<exists>(k, issues) \<in> set (validation_results s). issues \<noteq> [] then WARNINGS
      else VALID)"
proof -
  have c: "0 < sum_list (map (\<lambda>(k, issues). length (filter (\<lambda>i. severity i = Critical) issues))
                          (validation_results s)) \<longleftrightarrow>
           (\<exists>(k, issues) \<in> set (validation_results s). \<exists>i \<in> set issues. severity i = Critical)"
    by (auto simp: sum_list_pos_iff filter_empty_conv split: prod.splits)
  have t: "0 < sum_list (map (\<lambda>(k, issues). length issues) (validation_results s)) \<longleftrightarrow>
           (\<exists>(k, issues) \<in> set (validation_results s). issues \<noteq> [])"
    by (auto simp: sum_list_pos_iff split: prod.splits)
  show ?thesis
    unfolding compile_validation_results_def Let_def c t by simp
qed

lemma compile_not_failed: "overall_status (compile_validation_results s) \<noteq> FAILED"
  by (simp add: compile_validation_results_def Let_def)

lemma analyze_status [simp]:
  "overall_status (analyze_conflicts_with_llm a s) = overall_status s"
  by (simp add: analyze_conflicts_with_llm_def Let_def split: sum.splits)

lemma report_status:
  "generate_validation_report a s = Inr s' \<Longrightarrow> overall_status s' = overall_status s"
  by (auto simp: generate_validation_report_def bind_err_Inr_iff)

lemma invoke_run:
  "invoke a s0 =
     bind_err (load_schedule_data a s0) (\<lambda>s.
     bind_err (run_validators a s) (\<lambda>s.
       generate_validation_report a
         (analyze_conflicts_with_llm a (compile_validation_results s))))"
  unfolding invoke_def run_validators_def
  by (simp add: bind_err_def split: sum.splits)

lemma invoke_not_failed:
  assumes "invoke a s0 = Inr s"
  shows "overall_status s \<noteq> FAILED"
proof -
  from assms obtain s9 where
    "generate_validation_report a
       (analyze_conflicts_with_llm a (compile_validation_results s9)) = Inr s"
    unfolding invoke_run by (auto simp: bind_err_Inr_iff)
  from report_status [OF this] show ?thesis
    by (simp add: compile_not_failed)
qed

lemma failed_iff:
  "result_status (validate a sid ids) = FAILED \<longleftrightarrow>
     (\<exists>e. invoke a (initial_state sid ids) = Inl e)"
proof (cases "invoke a (initial_state sid ids)")
  case (Inl e)
  then show ?thesis by (simp add: validate_def)
next
  case (Inr s)
  with invoke_not_failed [OF Inr] show ?thesis
    by (simp add: validate_def format_result_def)
qed

lemmas validator_node_defs =
  validate_airport_slots_def validate_aircraft_availability_def validate_crew_feasibility_def
  validate_minimum_connect_times_def validate_airport_hours_node_def
  validate_regulatory_compliance_def validate_aircraft_routing_def
  validate_schedule_patterns_def

lemma run_validators_Inl:
  "run_validators a s = Inl e \<Longrightarrow>
     \<exists>v \<in> set (validators_of a). v (flights_to_validate s) = Inl e"
  unfolding run_validators_def validators_of_def validator_node_defs
  by (auto simp: bind_err_def split: sum.splits)

lemma run_validators_Inl_iff:
  "(\<exists>e. run_validators a s = Inl e) \<longleftrightarrow>
   (\<exists>v \<in> set (validators_of a). \<exists>e. v (flights_to_validate s) = Inl e)"
  unfolding run_validators_def validators_of_def validator_node_defs
  by (auto simp: bind_err_def split: sum.splits)

lemma failed_characterised:
  "result_status (validate a sid ids) = FAILED \<longleftrightarrow>
     (case load_schedule_data a (initial_state sid ids) of
        Inl e \<Rightarrow> True
      | Inr s1 \<Rightarrow>
          (\<exists>v \<in> set (validators_of a). \<exists>e. v (flights_to_validate s1) = Inl e) \<or>
          (\<exists>s9 e. run_validators a s1 = Inr s9 \<and>
             generate_validation_report a
               (analyze_conflicts_with_llm a (compile_validation_results s9)) = Inl e))"
proof (cases "load_schedule_data a (initial_state sid ids)")
  case (Inl e)
  then show ?thesis by (simp add: failed_iff invoke_run)
next
  case (Inr s1)
  show ?thesis
  proof (cases "run_validators a s1")
    case (Inl e)
    then have "\<exists>v \<in> set (validators_of a). \<exists>e. v (flights_to_validate s1) = Inl e"
      using run_validators_Inl_iff [of a s1] by blast
    with Inl Inr show ?thesis by (simp add: failed_iff invoke_run)
  next
    case r: (Inr s9)
    then have "\<not> (\<exists>v \<in> set (validators_of a). \<exists>e. v (flights_to_validate s1) = Inl e)"
      using run_validators_Inl_iff [of a s1] by simp
    with r Inr show ?thesis by (simp add: failed_iff invoke_run)
  qed
qed

lemma quiet_agent_completes:
  "validate quiet_agent ''S1'' None =
     Completed (format_result ((initial_state ''S1'' None)
       \<lparr>schedule_metadata := [(''season_code'', ''W25'')],
        flights_to_validate := [sample_flight],
        validation_results :=
          [(''slot_validation'', []), (''aircraft_validation'', []), (''crew_validation'', []),
           (''mct_validation'', []), (''curfew_validation'', []),
           (''regulatory_validation'', []), (''routing_validation'', []),
           (''pattern_validation'', [])]\<rparr>))"
  by (simp add: quiet_agent_def validate_def invoke_def initial_state_def
      load_schedule_data_def validator_node_defs compile_validation_results_def
      analyze_conflicts_with_llm_def generate_validation_report_def)

text \<open>
  Claim C1, as amended. Compiling the per-category issue lists sets the overall status to
  \<open>CRITICAL_ERRORS\<close> if some issue of some category is critical, else to \<open>WARNINGS\<close>
  if there is any issue, else to \<open>VALID\<close>. The status \<open>FAILED\<close> is returned exactly
  when a step of the workflow raises: loading the schedule and its flights, one of the
  eight validators on the loaded flights, or the report generator.
\<close>

theorem status_derivation:
  "overall_status (compile_validation_results s) =
     (if \<exists>(k, issues) \<in> set (validation_results s). \<exists>i \<in> set issues. severity i = Critical
      then CRITICAL_ERRORS
      else if \<exists>(k, issues) \<in> set (validation_results s). issues \<noteq> [] then WARNINGS
      else VALID) \<and>
   (result_status (validate a sid ids) = FAILED \<longleftrightarrow>
     (case load_schedule_data a (initial_state sid ids) of
        Inl e \<Rightarrow> True
      | Inr s1 \<Rightarrow>
          (\<exists>v \<in> set (validators_of a). \<exists>e. v (flights_to_validate s1) = Inl e) \<or>
          (\<exists>s9 e. run_validators a s1 = Inr s9 \<and>
             generate_validation_report a
               (analyze_conflicts_with_llm a (compile_validation_results s9)) = Inl e)))"
  using compile_status [of s] failed_characterised [of a sid ids] by (rule conjI)

theorem status_derivation_witness:
  "overall_status (compile_validation_results critical_state) = CRITICAL_ERRORS \<and>
   result_status (validate quiet_agent ''S1'' None) \<noteq> FAILED"
proof -
  have "\<exists>(k, issues) \<in> set (validation_results critical_state).
          \<exists>i \<in> set issues. severity i = Critical"
    by (simp add: critical_state_def initial_state_def validate_operating_days_def
        sample_flight_def)
  moreover have "result_status (validate quiet_agent ''S1'' None) = VALID"
    by (simp add: quiet_agent_completes format_result_def initial_state_def)
  ultimately show ?thesis
    using status_derivation [of critical_state quiet_agent "''S1''" None] by simp
qed

text \<open>
  Claim C1 as stated fails: the schedule and its flight are loaded, the pattern validator
  raises, and the status is \<open>FAILED\<close>.
\<close>

theorem failed_without_load_failure:
  "load_schedule_data pattern_error_agent (initial_state ''S1'' None) =
     Inr ((initial_state ''S1'' None)
            \<lparr>schedule_metadata := [(''season_code'', ''W25'')],
             flights_to_validate := [sample_flight]\<rparr>) \<and>
   result_status (validate pattern_error_agent ''S1'' None) = FAILED"
  by (simp add: pattern_error_agent_def quiet_agent_def validate_def invoke_def
      initial_state_def load_schedule_data_def validator_node_defs)

section \<open>A validator that raises\<close>

text \<open>
  Claim C2, as amended. When the schedule is loaded and one of the eight validators raises
  on the loaded flights, the run is aborted: \<open>validate\<close> returns the status \<open>FAILED\<close>
  with the message of a validator that raised, and no results of any category. No
  validator node catches an exception, and no \<open>category_incomplete\<close> issue is built.
\<close>

theorem validator_failure_aborts:
  assumes "load_schedule_data a (initial_state sid ids) = Inr s1"
    and "v \<in> set (validators_of a)"
    and "v (flights_to_validate s1) = Inl e"
  shows "\<exists>e' \<in> {x. \<exists>v' \<in> set (validators_of a). v' (flights_to_validate s1) = Inl x}.
           validate a sid ids = Aborted sid (error_message e') \<and>
           result_status (validate a sid ids) = FAILED \<and>
           result_issues (validate a sid ids) = None"
proof -
  from assms(2,3) obtain e' where r: "run_validators a s1 = Inl e'"
    using run_validators_Inl_iff [of a s1] by blast
  with assms(1) have "invoke a (initial_state sid ids) = Inl e'"
    by (simp add: invoke_run)
  then have "validate a sid ids = Aborted sid (error_message e')"
    by (simp add: validate_def)
  with run_validators_Inl [OF r] show ?thesis by auto
qed

theorem validator_failure_aborts_witness:
  "validate regulatory_down_agent ''S1'' None =
     Aborted ''S1'' ''bilateral agreements query timed out''"
proof -
  let ?s1 = "(initial_state ''S1'' None)
               \<lparr>schedule_metadata := [(''season_code'', ''W25'')],
                flights_to_validate := [sample_flight]\<rparr>"
  have l: "load_schedule_data regulatory_down_agent (initial_state ''S1'' None) = Inr ?s1"
    by (simp add: regulatory_down_agent_def quiet_agent_def load_schedule_data_def
        initial_state_def)
  have m: "regulatory_validator regulatory_down_agent \<in> set (validators_of regulatory_down_agent)"
    by (simp add: validators_of_def)
  have f: "regulatory_validator regulatory_down_agent (flights_to_validate ?s1) =
             Inl (InfrastructureError ''bilateral agreements query timed out'')"
    by (simp add: regulatory_down_agent_def)
  have only: "\<And>v' x. v' \<in> set (validators_of regulatory_down_agent) \<Longrightarrow>
                v' (flights_to_validate ?s1) = Inl x \<Longrightarrow>
                x = InfrastructureError ''bilateral agreements query timed out''"
    by (auto simp: validators_of_def regulatory_down_agent_def quiet_agent_def)
  from validator_failure_aborts [OF l m f] only show ?thesis by fastforce
qed

text \<open>
  Claim C2 as stated fails: the slot validator raises an infrastructure error, and the
  run is aborted with no results, although the claim has it continue.
\<close>

theorem slot_failure_aborts_run:
  "slot_validator slot_down_agent [sample_flight] =
     Inl (InfrastructureError ''slot database unreachable'') \<and>
   validate slot_down_agent ''S1'' None = Aborted ''S1'' ''slot database unreachable'' \<and>
   result_issues (validate slot_down_agent ''S1'' None) = None"
  by (simp add: slot_down_agent_def quiet_agent_def validate_def invoke_def
      initial_state_def load_schedule_data_def validate_airport_slots_def)

section \<open>The operating-days pattern\<close>

lemma critical_pattern_issue_iff:
  "(\<exists>i \<in> set (validate_operating_days f).
      severity i = Critical \<and> category i = ''pattern_validation'' \<and>
      i_flight_id i = flight_id f) \<longleftrightarrow>
   (length (operating_days f) \<noteq> 7 \<or> \<not> set (operating_days f) \<subseteq> VALID_OPERATING_CHARS)"
proof (cases "length (operating_days f) = 7")
  case False
  then show ?thesis by (simp add: validate_operating_days_def)
next
  case len: True
  show ?thesis
  proof (cases "set (operating_days f) \<subseteq> VALID_OPERATING_CHARS")
    case True
    with len show ?thesis
      by (simp add: validate_operating_days_def Let_def Diff_eq_empty_iff del: One_nat_def)
  next
    case False
    with len show ?thesis
      by (simp add: validate_operating_days_def Let_def Diff_eq_empty_iff del: One_nat_def)
  qed
qed

lemma no_operating_days_issue_iff:
  "(\<exists>i \<in> set (validate_operating_days f).
      severity i = High \<and> issue_type i = ''no_operating_days'' \<and>
      i_flight_id i = flight_id f) \<longleftrightarrow>
   (length (operating_days f) = 7 \<and> (\<forall>c \<in> set (operating_days f). c \<notin> set ''1234567''))"
proof (cases "length (operating_days f) = 7")
  case False
  then show ?thesis by (simp add: validate_operating_days_def)
next
  case len: True
  have x: "operating_days f = ''XXXXXXX'' \<Longrightarrow>
             (\<forall>c \<in> set (operating_days f). c \<notin> set ''1234567'')"
    by simp
  show ?thesis
  proof (cases "\<forall>c \<in> set (operating_days f). c \<notin> set ''1234567''")
    case True
    with len show ?thesis
      by (simp add: validate_operating_days_def Let_def del: One_nat_def)
  next
    case False
    with x have "operating_days f \<noteq> ''XXXXXXX''" by blast
    with False len show ?thesis
      by (simp add: validate_operating_days_def Let_def del: One_nat_def)
  qed
qed

text \<open>
  Claim C3, as amended. The operating-days check emits a critical pattern issue for a
  flight exactly when its pattern is not seven characters long or holds a character
  outside \<open>1\<close> to \<open>7\<close> and \<open>X\<close>; the position of a digit is not checked. It emits a
  high \<open>no_operating_days\<close> issue exactly when the pattern is seven characters long and
  holds no digit \<open>1\<close> to \<open>7\<close>.
\<close>

theorem operating_days_issues:
  "((\<exists>i \<in> set (validate_operating_days f).
       severity i = Critical \<and> category i = ''pattern_validation'' \<and>
       i_flight_id i = flight_id f) \<longleftrightarrow>
    (length (operating_days f) \<noteq> 7 \<or> \<not> set (operating_days f) \<subseteq> VALID_OPERATING_CHARS)) \<and>
   ((\<exists>i \<in> set (validate_operating_days f).
       severity i = High \<and> issue_type i = ''no_operating_days'' \<and>
       i_flight_id i = flight_id f) \<longleftrightarrow>
    (length (operating_days f) = 7 \<and> (\<forall>c \<in> set (operating_days f). c \<notin> set ''1234567'')))"
  using critical_pattern_issue_iff [of f] no_operating_days_issue_iff [of f] by (rule conjI)

theorem operating_days_issues_witness:
  "(\<exists>i \<in> set (validate_operating_days (sample_flight\<lparr>operating_days := ''ABCDEFG''\<rparr>)).
      severity i = Critical \<and> category i = ''pattern_validation'' \<and>
      i_flight_id i = ''test-flight-001'') \<and>
   (\<exists>i \<in> set (validate_operating_days (sample_flight\<lparr>operating_days := ''ABCDEFG''\<rparr>)).
      severity i = High \<and> issue_type i = ''no_operating_days'' \<and>
      i_flight_id i = ''test-flight-001'')"
  using operating_days_issues [of "sample_flight\<lparr>operating_days := ''ABCDEFG''\<rparr>"]
  by (simp add: sample_flight_def VALID_OPERATING_CHARS_def)

text \<open>
  Claim C3 as stated fails. The pattern \<open>2134567\<close> has its first two digits in the wrong
  positions and gets no issue; the pattern \<open>XXX\<close> holds no digit and gets the length issue
  only.
\<close>

theorem misplaced_digits_pass:
  "\<not> positionally_correct ''2134567'' \<and>
   validate_operating_days (sample_flight\<lparr>operating_days := ''2134567''\<rparr>) = [] \<and>
   map issue_type (validate_operating_days (sample_flight\<lparr>operating_days := ''XXX''\<rparr>)) =
     [''invalid_operating_days_length'']"
  by (simp add: positionally_correct_def validate_operating_days_def VALID_OPERATING_CHARS_def
      sample_flight_def)


section \<open>Facts about the example data\<close>

lemma dated_rows: "airport_constraints dated_ref = [pty_row]"
  by (simp add: dated_ref_def)

lemma empty_rows: "airport_constraints empty_ref = []"
  by (simp add: empty_ref_def)

lemma pty_constraints_before: "get_airport_constraints 20089 dated_ref ''PTY'' = None"
  by (simp add: get_airport_constraints_def dated_rows pty_row_def)

lemma pty_constraints_after:
  "20100 \<le> d \<Longrightarrow>
     get_airport_constraints d dated_ref ''PTY'' = Some (constraints_of_row pty_row)"
  by (simp add: get_airport_constraints_def dated_rows pty_row_def)

lemma mia_constraints: "get_airport_constraints d dated_ref ''MIA'' = None"
  by (simp add: get_airport_constraints_def dated_rows pty_row_def)

lemma no_constraints_rows: "get_airport_constraints d empty_ref a = None"
  by (simp add: get_airport_constraints_def empty_rows)

lemma hardcoded_pty: "map_of CURFEW_AIRPORTS ''PTY'' = None"
  by (simp add: CURFEW_AIRPORTS_def)

lemma hardcoded_mia: "map_of CURFEW_AIRPORTS ''MIA'' = None"
  by (simp add: CURFEW_AIRPORTS_def)

lemma hardcoded_lhr:
  "map_of CURFEW_AIRPORTS ''LHR'' = Some (mk_time 23 0 0, mk_time 6 0 0, True)"
  by (simp add: CURFEW_AIRPORTS_def)

lemma pty_before: "airport_constraints_for 20089 dated_ref ''PTY'' = None"
  by (simp add: airport_constraints_for_def pty_constraints_before hardcoded_pty)

lemma pty_after:
  "20100 \<le> d \<Longrightarrow> airport_constraints_for d dated_ref ''PTY'' = Some (constraints_of_row pty_row)"
  by (simp add: airport_constraints_for_def pty_constraints_after)

lemma mia_any: "airport_constraints_for d dated_ref ''MIA'' = None"
  by (simp add: airport_constraints_for_def mia_constraints hardcoded_mia)

lemma lhr_hardcoded: "airport_constraints_for d empty_ref ''LHR'' = Some lhr_constraints"
  by (simp add: airport_constraints_for_def no_constraints_rows hardcoded_lhr
      lhr_constraints_def)

lemma lhr_constraints_fields:
  "curfew_start lhr_constraints = Some (mk_time 23 0 0)"
  "curfew_end lhr_constraints = Some (mk_time 6 0 0)"
  "strict_curfew lhr_constraints = Some True"
  "noise_category_required lhr_constraints = None"
  by (simp_all add: lhr_constraints_def)

lemma not_quiet_738: "\<not> is_quiet_aircraft ''738''"
  by (simp add: is_quiet_aircraft_def AIRCRAFT_NOISE_CATEGORIES_def)

lemma no_slot_exemption:
  "slot_exemption empty_ref a b c = None" "slot_exemption dated_ref a b c = None"
  by (simp_all add: empty_ref_def dated_ref_def)

lemma sample_fields:
  "service_type sample_flight = ''J''" "aircraft_type sample_flight = ''738''"
  "flight_id sample_flight = ''test-flight-001''" "flight_number sample_flight = ''CM101''"
  "origin_airport sample_flight = ''PTY''" "destination_airport sample_flight = ''MIA''"
  "departure_time sample_flight = mk_time 8 0 0" "arrival_time sample_flight = mk_time 11 30 0"
  by (simp_all add: sample_flight_def)

lemma lhr_fields:
  "service_type lhr_departure = ''J''" "aircraft_type lhr_departure = ''738''"
  "flight_id lhr_departure = ''test-flight-001''"
  by (simp_all add: lhr_departure_def sample_flight_def)

lemma lhr_no_exemption:
  "check_curfew_exemption empty_ref lhr_departure ''LHR'' ''departure'' c = Inr None"
  by (simp add: check_curfew_exemption_def no_slot_exemption lhr_fields not_quiet_738)

lemma sample_no_exemption: "check_curfew_exemption dated_ref sample_flight a b c = Inr None"
  by (simp add: check_curfew_exemption_def no_slot_exemption sample_fields not_quiet_738)

lemma pty_departure_in_curfew:
  "20100 \<le> d \<Longrightarrow>
   validate_airport_hours d dated_ref sample_flight ''PTY'' ''departure'' (mk_time 8 0 0) =
     Inr [new_issue Critical ''curfew_validation'' ''test-flight-001'' ''CM101''
            ''curfew_violation''
            [(''airport'', DStr ''PTY''), (''operation'', DStr ''departure''),
             (''scheduled_time'', DTime (mk_time 8 0 0)), (''strict_curfew'', DBool True)]]"
  by (simp add: validate_airport_hours_def pty_after constraints_of_row_def pty_row_def
      curfew_issues_def sample_no_exemption check_night_movement_quota_def
      check_noise_restrictions_def operating_hours_issues_def is_during_curfew_def mk_time_def
      sample_fields)

lemma null_exemptions_constraints:
  "airport_constraints_for 20100 null_exemptions_ref ''PTY'' =
     Some (constraints_of_row null_exemptions_row)"
  by (simp add: airport_constraints_for_def get_airport_constraints_def null_exemptions_ref_def
      empty_ref_def null_exemptions_row_def pty_row_def)

lemma null_exemptions_fields:
  "curfew_start (constraints_of_row null_exemptions_row) = Some (mk_time 7 0 0)"
  "curfew_end (constraints_of_row null_exemptions_row) = Some (mk_time 9 0 0)"
  "exemption_types (constraints_of_row null_exemptions_row) = None"
  by (simp_all add: constraints_of_row_def null_exemptions_row_def pty_row_def)

lemma cargo_fields:
  "service_type cargo_departure = ''F''" "flight_id cargo_departure = ''test-flight-001''"
  "origin_airport cargo_departure = ''PTY''" "destination_airport cargo_departure = ''MIA''"
  "departure_time cargo_departure = mk_time 7 0 0"
  by (simp_all add: cargo_departure_def sample_flight_def)

lemma null_exemptions_no_slot_exemption: "slot_exemption null_exemptions_ref a b c = None"
  by (simp add: null_exemptions_ref_def empty_ref_def)

lemma cargo_exemption_check_raises:
  "check_curfew_exemption null_exemptions_ref cargo_departure ''PTY'' ''departure''
     (constraints_of_row null_exemptions_row) =
   Inl (TypeError ''argument of type NoneType is not iterable'')"
  by (simp add: check_curfew_exemption_def null_exemptions_no_slot_exemption cargo_fields
      in_exemption_types_def null_exemptions_fields)

lemma cargo_airport_hours_raise:
  "validate_airport_hours 20100 null_exemptions_ref cargo_departure ''PTY'' ''departure''
     (mk_time 7 0 0) = Inl (TypeError ''argument of type NoneType is not iterable'')"
  by (simp add: validate_airport_hours_def null_exemptions_constraints curfew_issues_def
      null_exemptions_fields is_during_curfew_def cargo_exemption_check_raises)

lemma chapter2_constraints:
  "airport_constraints_for 20100 chapter2_ref ''PTY'' = Some (constraints_of_row chapter2_row)"
  by (simp add: airport_constraints_for_def get_airport_constraints_def chapter2_ref_def
      empty_ref_def chapter2_row_def pty_row_def)

lemma chapter2_fields:
  "curfew_start (constraints_of_row chapter2_row) = Some (mk_time 7 0 0)"
  "curfew_end (constraints_of_row chapter2_row) = Some (mk_time 9 0 0)"
  "noise_category_required (constraints_of_row chapter2_row) = Some ''Chapter 2''"
  "max_night_movements (constraints_of_row chapter2_row) = None"
  "strict_curfew (constraints_of_row chapter2_row) = Some True"
  by (simp_all add: constraints_of_row_def chapter2_row_def pty_row_def)

lemma curfew_end_fields:
  "service_type curfew_end_departure = ''J''" "aircraft_type curfew_end_departure = ''738''"
  "flight_id curfew_end_departure = ''test-flight-001''"
  "flight_number curfew_end_departure = ''CM101''"
  by (simp_all add: curfew_end_departure_def sample_flight_def)

lemma chapter2_no_exemption:
  "check_curfew_exemption chapter2_ref curfew_end_departure ''PTY'' ''departure'' c = Inr None"
  by (simp add: check_curfew_exemption_def chapter2_ref_def empty_ref_def curfew_end_fields
      not_quiet_738)

lemma noise_738: "get_noise_category ''738'' = ''Chapter 4''"
  by (simp add: get_noise_category_def AIRCRAFT_NOISE_CATEGORIES_def)

lemma tied_constraints:
  "airport_constraints_for 20100 tied_ref ''PTY'' = Some (constraints_of_row pty_row)"
  "airport_constraints_for 20100 tied_ref_swapped ''PTY'' = Some (constraints_of_row lenient_row)"
  by (simp_all add: airport_constraints_for_def get_airport_constraints_def tied_ref_def
      tied_ref_swapped_def empty_ref_def lenient_row_def pty_row_def)

lemma tied_mia:
  "airport_constraints_for d tied_ref ''MIA'' = None"
  "airport_constraints_for d tied_ref_swapped ''MIA'' = None"
  by (simp_all add: airport_constraints_for_def get_airport_constraints_def tied_ref_def
      tied_ref_swapped_def empty_ref_def lenient_row_def pty_row_def hardcoded_mia)

lemma tied_no_exemption:
  "check_curfew_exemption tied_ref sample_flight a b c = Inr None"
  "check_curfew_exemption tied_ref_swapped sample_flight a b c = Inr None"
  by (simp_all add: check_curfew_exemption_def tied_ref_def tied_ref_swapped_def empty_ref_def
      sample_fields not_quiet_738)

lemma tied_departure:
  "validate_airport_hours 20100 tied_ref sample_flight ''PTY'' ''departure'' (mk_time 8 0 0) =
     Inr [new_issue Critical ''curfew_validation'' ''test-flight-001'' ''CM101''
            ''curfew_violation''
            [(''airport'', DStr ''PTY''), (''operation'', DStr ''departure''),
             (''scheduled_time'', DTime (mk_time 8 0 0)), (''strict_curfew'', DBool True)]]"
  "validate_airport_hours 20100 tied_ref_swapped sample_flight ''PTY'' ''departure''
       (mk_time 8 0 0) =
     Inr [new_issue High ''curfew_validation'' ''test-flight-001'' ''CM101''
            ''curfew_violation''
            [(''airport'', DStr ''PTY''), (''operation'', DStr ''departure''),
             (''scheduled_time'', DTime (mk_time 8 0 0)), (''strict_curfew'', DBool False)]]"
  by (simp_all add: validate_airport_hours_def tied_constraints constraints_of_row_def
      lenient_row_def pty_row_def curfew_issues_def tied_no_exemption
      check_night_movement_quota_def check_noise_restrictions_def operating_hours_issues_def
      is_during_curfew_def mk_time_def sample_fields)

section \<open>The curfew window\<close>

lemma noise_category_ranked: "get_noise_category t \<in> set category_hierarchy"
  by (simp add: get_noise_category_def AIRCRAFT_NOISE_CATEGORIES_def category_hierarchy_def)

lemma index_of_Inr: "x \<in> set ys \<Longrightarrow> \<exists>i. index_of ys x = Inr i"
  by (induction ys) auto

lemma night_quota_returns:
  assumes "curfew_start c = Some cs" "curfew_end c = Some ce"
  shows "\<exists>n. check_night_movement_quota ref f airport operation sched c = Inr n"
  using assms
  by (simp add: check_night_movement_quota_def during_curfew_of_def Let_def split: option.splits)

lemma noise_check_returns:
  assumes "curfew_start c = Some cs" "curfew_end c = Some ce" "noise_requirement_wellformed c"
  shows "\<exists>n. check_noise_restrictions f airport operation sched c = Inr n"
proof (cases "truthy_str (noise_category_required c)")
  case False
  then show ?thesis by (simp add: check_noise_restrictions_def)
next
  case True
  then obtain r where r: "noise_category_required c = Some r" "r \<noteq> []"
    by (cases "noise_category_required c") auto
  with assms(3) have "r \<in> set category_hierarchy"
    by (simp add: noise_requirement_wellformed_def)
  then obtain j where j: "index_of category_hierarchy r = Inr j"
    using index_of_Inr by blast
  obtain i where i: "index_of category_hierarchy (get_noise_category (aircraft_type f)) = Inr i"
    using index_of_Inr [OF noise_category_ranked] by blast
  show ?thesis
    using assms(1,2) r i j
    by (simp add: check_noise_restrictions_def during_curfew_of_def Let_def)
qed

lemma curfew_block_violation:
  assumes "curfew_start c = Some cs" "curfew_end c = Some ce" "is_during_curfew sched cs ce"
    and "check_curfew_exemption ref f airport operation c = Inr None"
  shows "curfew_issues ref f airport operation sched c =
           Inr [new_issue (if strict_curfew c = Some True then Critical else High)
                  ''curfew_validation'' (flight_id f) (flight_number f) ''curfew_violation''
                  [(''airport'', DStr airport), (''operation'', DStr operation),
                   (''scheduled_time'', DTime sched),
                   (''strict_curfew'',
                      (case strict_curfew c of Some b \<Rightarrow> DBool b | None \<Rightarrow> DNone))]]"
  using assms by (simp add: curfew_issues_def Let_def)

text \<open>
  The behaviour at the two bounds, as long as nothing raises. Let the constraints of an
  airport have a curfew window from \<open>cs\<close> to \<open>ce\<close>, spanning midnight or not, and let
  the scheduled time of a departure or arrival be \<open>cs\<close> or \<open>ce\<close>. Then the time counts
  as during the curfew, and if the exemption check returns no exemption, the curfew block
  of \<^verbatim>\<open>_validate_airport_hours\<close> returns one \<open>curfew_violation\<close> for the flight,
  critical if the curfew is strict and high otherwise. This issue is among the issues
  \<^verbatim>\<open>_validate_airport_hours\<close> returns for the airport, when the required noise category
  of the airport, if any, is one of the three chapters.
\<close>

lemma curfew_boundaries_inclusive:
  assumes "curfew_start c = Some cs" and "curfew_end c = Some ce"
    and "sched = cs \<or> sched = ce"
    and "check_curfew_exemption ref f airport operation c = Inr None"
  shows "is_during_curfew sched cs ce \<and>
         (\<exists>i. curfew_issues ref f airport operation sched c = Inr [i] \<and>
            issue_type i = ''curfew_violation'' \<and>
            severity i = (if strict_curfew c = Some True then Critical else High) \<and>
            i_flight_id i = flight_id f) \<and>
         (airport_constraints_for today ref airport = Some c \<and>
          noise_requirement_wellformed c \<longrightarrow>
          (\<exists>issues. validate_airport_hours today ref f airport operation sched = Inr issues \<and>
             (\<exists>i \<in> set issues. issue_type i = ''curfew_violation'' \<and>
                severity i = (if strict_curfew c = Some True then Critical else High) \<and>
                i_flight_id i = flight_id f)))"
proof -
  from assms(3) have d: "is_during_curfew sched cs ce"
    by (auto simp: is_during_curfew_def)
  note b = curfew_block_violation [OF assms(1,2) d assms(4)]
  have block: "\<exists>i. curfew_issues ref f airport operation sched c = Inr [i] \<and>
            issue_type i = ''curfew_violation'' \<and>
            severity i = (if strict_curfew c = Some True then Critical else High) \<and>
            i_flight_id i = flight_id f"
    by (simp add: b)
  have whole: "\<exists>issues. validate_airport_hours today ref f airport operation sched = Inr issues \<and>
             (\<exists>i \<in> set issues. issue_type i = ''curfew_violation'' \<and>
                severity i = (if strict_curfew c = Some True then Critical else High) \<and>
                i_flight_id i = flight_id f)"
    if c: "airport_constraints_for today ref airport = Some c"
      and w: "noise_requirement_wellformed c"
  proof -
    obtain n where n: "check_night_movement_quota ref f airport operation sched c = Inr n"
      using night_quota_returns [OF assms(1,2)] by blast
    obtain m where m: "check_noise_restrictions f airport operation sched c = Inr m"
      using noise_check_returns [OF assms(1,2) w] by blast
    show ?thesis
      using c b n m by (simp add: validate_airport_hours_def)
  qed
  from d block whole show ?thesis by blast
qed

lemma curfew_boundaries_inclusive_at_lhr:
  "is_during_curfew (mk_time 23 0 0) (mk_time 23 0 0) (mk_time 6 0 0) \<and>
   (\<exists>issues. validate_airport_hours 20089 empty_ref lhr_departure ''LHR'' ''departure''
                (mk_time 23 0 0) = Inr issues \<and>
      (\<exists>i \<in> set issues. issue_type i = ''curfew_violation'' \<and> severity i = Critical \<and>
         i_flight_id i = ''test-flight-001''))"
proof -
  have w: "noise_requirement_wellformed lhr_constraints"
    by (simp add: noise_requirement_wellformed_def lhr_constraints_fields)
  have b: "mk_time 23 0 0 = mk_time 23 0 0 \<or> mk_time 23 0 0 = mk_time 6 0 0"
    by simp
  from curfew_boundaries_inclusive [OF lhr_constraints_fields(1,2) b lhr_no_exemption,
      of 20089] lhr_hardcoded [of 20089] w
  show ?thesis by (simp add: lhr_constraints_fields lhr_fields)
qed

text \<open>
  A required noise category outside the three chapters: the curfew block returns the
  critical violation for the departure at the end of the curfew, and then
  \<^verbatim>\<open>category_hierarchy.index(required_category)\<close> raises \<^verbatim>\<open>ValueError\<close>, so that
  \<^verbatim>\<open>_validate_airport_hours\<close> returns no issue.
\<close>

lemma unranked_noise_category_raises:
  "(\<exists>i. curfew_issues chapter2_ref curfew_end_departure ''PTY'' ''departure'' (mk_time 9 0 0)
          (constraints_of_row chapter2_row) = Inr [i] \<and>
        issue_type i = ''curfew_violation'' \<and> severity i = Critical) \<and>
   validate_airport_hours 20100 chapter2_ref curfew_end_departure ''PTY'' ''departure''
     (mk_time 9 0 0) = Inl (ValueError ''not in list'')"
  by (simp add: validate_airport_hours_def chapter2_constraints curfew_issues_def
      chapter2_fields is_during_curfew_def chapter2_no_exemption check_night_movement_quota_def
      check_noise_restrictions_def during_curfew_of_def curfew_end_fields noise_738
      category_hierarchy_def Let_def)

text \<open>
  Claim C7 at a failing input. The constraints row of PTY has a strict curfew from 07:00
  to 09:00 and \<^verbatim>\<open>NULL\<close> exemption types; a cargo flight leaves PTY at 07:00, the start
  of the curfew, and the database has no slot exemption for it. The time counts as during
  the curfew and no exemption applies, so the claim has the flight receive a critical
  \<open>curfew_violation\<close>. \<^verbatim>\<open>_check_curfew_exemption\<close> replaces the exemption types by the
  empty list only when the key is missing; the \<^verbatim>\<open>None\<close> of the row reaches
  \<^verbatim>\<open>"cargo" in exemption_types\<close>, which raises \<^verbatim>\<open>TypeError\<close>, and neither
  \<^verbatim>\<open>_validate_airport_hours\<close> nor the validator returns an issue.
\<close>

theorem boundary_cargo_flight_raises:
  "airport_constraints_for 20100 null_exemptions_ref (origin_airport cargo_departure) =
     Some (constraints_of_row null_exemptions_row) \<and>
   curfew_start (constraints_of_row null_exemptions_row) = Some (departure_time cargo_departure) \<and>
   curfew_end (constraints_of_row null_exemptions_row) = Some (mk_time 9 0 0) \<and>
   is_during_curfew (departure_time cargo_departure) (mk_time 7 0 0) (mk_time 9 0 0) \<and>
   slot_exemption null_exemptions_ref ''PTY'' (flight_id cargo_departure) ''departure'' = None \<and>
   validate_airport_hours 20100 null_exemptions_ref cargo_departure ''PTY'' ''departure''
     (departure_time cargo_departure) =
     Inl (TypeError ''argument of type NoneType is not iterable'') \<and>
   curfew_validate 20100 null_exemptions_ref [cargo_departure] =
     Inl (TypeError ''argument of type NoneType is not iterable'')"
  by (simp add: cargo_fields cargo_airport_hours_raise null_exemptions_no_slot_exemption
      null_exemptions_constraints null_exemptions_fields is_during_curfew_def)

section \<open>The current date\<close>

text \<open>
  The date read from the clock cancels out of the time differences of the MCT and aircraft
  validators, when all readings of one comparison fall on one day.
\<close>

lemma connection_minutes_today:
  "connection_minutes today inbound outbound =
     of_int (if departure_time outbound < arrival_time inbound
             then int (departure_time outbound) + 86400 - int (arrival_time inbound)
             else int (departure_time outbound) - int (arrival_time inbound)) / 60"
  by (simp add: connection_minutes_def combine_def dt_less_def plus_days_def total_seconds_def)

lemma turnaround_minutes_today:
  "turnaround_minutes today prev_flight current_flight =
     of_int (int (departure_time current_flight) - int (arrival_time prev_flight)) / 60"
  by (simp add: turnaround_minutes_def combine_def dt_time_def total_seconds_def Let_def)

lemma duration_hours_today:
  "duration_hours today f =
     of_int (if arrival_time f < departure_time f
             then 86400 + int (arrival_time f) - int (departure_time f)
             else int (arrival_time f) - int (departure_time f)) / 3600"
  by (simp add: duration_hours_def combine_def total_seconds_def Let_def)

text \<open>
  The curfew validator reads the current date in its query for the airport constraints,
  and nowhere else: two dates with the same constraints for the airports of the flights
  give the same result.
\<close>

lemma validate_airport_hours_cong:
  "airport_constraints_for d1 ref airport = airport_constraints_for d2 ref airport \<Longrightarrow>
   validate_airport_hours d1 ref f airport operation sched =
   validate_airport_hours d2 ref f airport operation sched"
  by (simp add: validate_airport_hours_def)

lemma curfew_validate_cong:
  assumes "\<forall>f \<in> set flights.
     airport_constraints_for d1 ref (origin_airport f) =
       airport_constraints_for d2 ref (origin_airport f) \<and>
     airport_constraints_for d1 ref (destination_airport f) =
       airport_constraints_for d2 ref (destination_airport f)"
  shows "curfew_validate d1 ref flights = curfew_validate d2 ref flights"
  using assms
proof (induction flights)
  case Nil
  then show ?case by simp
next
  case (Cons f flights)
  then have "curfew_validate d1 ref flights = curfew_validate d2 ref flights" by simp
  moreover from Cons.prems have
    "validate_airport_hours d1 ref f (origin_airport f) ''departure'' (departure_time f) =
     validate_airport_hours d2 ref f (origin_airport f) ''departure'' (departure_time f)"
    "validate_airport_hours d1 ref f (destination_airport f) ''arrival'' (arrival_time f) =
     validate_airport_hours d2 ref f (destination_airport f) ''arrival'' (arrival_time f)"
    by (simp_all add: validate_airport_hours_cong [of d1 ref _ d2])
  ultimately show ?case by simp
qed

text \<open>
  With the same flight and the same reference data, the curfew validator finds nothing on
  day 20089 and a critical curfew violation on day 20100, when the constraints row of the
  airport has come into effect.
\<close>

lemma curfew_depends_on_current_date:
  "curfew_validate 20089 dated_ref [sample_flight] = Inr [] \<and>
   curfew_validate 20100 dated_ref [sample_flight] =
     Inr [new_issue Critical ''curfew_validation'' ''test-flight-001'' ''CM101''
            ''curfew_violation''
            [(''airport'', DStr ''PTY''), (''operation'', DStr ''departure''),
             (''scheduled_time'', DTime (mk_time 8 0 0)), (''strict_curfew'', DBool True)]] \<and>
   curfew_validate 20089 dated_ref [sample_flight] \<noteq>
     curfew_validate 20100 dated_ref [sample_flight]"
  by (simp add: sample_fields pty_departure_in_curfew)
     (simp add: validate_airport_hours_def pty_before mia_any)

text \<open>
  With the same flight, the same date and the same rows in the table, the severity of
  the violation follows the order in which two rows with the same effective-from date are
  returned.
\<close>

lemma curfew_depends_on_row_order:
  "set (airport_constraints tied_ref) = set (airport_constraints tied_ref_swapped) \<and>
   curfew_validate 20100 tied_ref [sample_flight] =
     Inr [new_issue Critical ''curfew_validation'' ''test-flight-001'' ''CM101''
            ''curfew_violation''
            [(''airport'', DStr ''PTY''), (''operation'', DStr ''departure''),
             (''scheduled_time'', DTime (mk_time 8 0 0)), (''strict_curfew'', DBool True)]] \<and>
   curfew_validate 20100 tied_ref_swapped [sample_flight] =
     Inr [new_issue High ''curfew_validation'' ''test-flight-001'' ''CM101''
            ''curfew_violation''
            [(''airport'', DStr ''PTY''), (''operation'', DStr ''departure''),
             (''scheduled_time'', DTime (mk_time 8 0 0)), (''strict_curfew'', DBool False)]]"
proof -
  have "set (airport_constraints tied_ref) = set (airport_constraints tied_ref_swapped)"
    by (auto simp add: tied_ref_def tied_ref_swapped_def empty_ref_def)
  moreover have
    "validate_airport_hours 20100 tied_ref sample_flight ''MIA'' ''arrival'' (mk_time 11 30 0) =
       Inr []"
    "validate_airport_hours 20100 tied_ref_swapped sample_flight ''MIA'' ''arrival''
       (mk_time 11 30 0) = Inr []"
    by (simp_all add: validate_airport_hours_def tied_mia)
  ultimately show ?thesis
    by (simp add: sample_fields tied_departure)
qed


section \<open>Required connect time\<close>

lemma ord_hub: "''ORD'' \<in> MCT_HUB_AIRPORTS"
  by (simp add: MCT_HUB_AIRPORTS_def)

lemma us_airports:
  "get_country_from_airport ''JFK'' = ''US''"
  "get_country_from_airport ''ORD'' = ''US''"
  "get_country_from_airport ''LAX'' = ''US''"
  by (simp_all add: get_country_from_airport_def AIRPORT_COUNTRIES_def)

lemma scenario_b_fields:
  "carrier_code scenario_b_inbound = ''AA''" "carrier_code scenario_b_outbound = ''UA''"
  "destination_airport scenario_b_inbound = ''ORD''"
  "origin_airport scenario_b_inbound = ''JFK''"
  "destination_airport scenario_b_outbound = ''LAX''"
  "origin_airport scenario_b_outbound = ''ORD''"
  "arrival_time scenario_b_inbound = mk_time 10 0 0"
  "departure_time scenario_b_inbound = mk_time 8 0 0"
  "departure_time scenario_b_outbound = mk_time 10 40 0"
  "arrival_time scenario_b_outbound = mk_time 13 0 0"
  "flight_id scenario_b_inbound = ''b-in''" "flight_id scenario_b_outbound = ''b-out''"
  "effective_from scenario_b_inbound = Some 20089"
  "effective_from scenario_b_outbound = Some 20089"
  "aircraft_registration scenario_b_inbound = None"
  by (simp_all add: scenario_b_inbound_def scenario_b_outbound_def)

lemma online_fields:
  "carrier_code online_outbound = ''AA''"
  "destination_airport online_outbound = ''LAX''" "origin_airport online_outbound = ''ORD''"
  "departure_time online_outbound = mk_time 10 40 0"
  "arrival_time online_outbound = mk_time 13 0 0"
  "flight_id online_outbound = ''b-out''" "effective_from online_outbound = Some 20089"
  by (simp_all add: online_outbound_def scenario_b_outbound_def)

lemma scenario_b_domestic:
  "\<not> is_international_flight scenario_b_inbound"
  "\<not> is_international_flight scenario_b_outbound"
  "\<not> is_international_flight online_outbound"
  by (simp_all add: is_international_flight_def scenario_b_fields online_fields us_airports)

lemma mct_lookups:
  "mct_minutes empty_ref a b c = None" "mct_minutes terminal_ref a b c = None"
  "leg_terminal empty_ref a b c = None" "leg_terminal terminal_ref a b c = Some (Some ''T1'')"
  by (simp_all add: empty_ref_def terminal_ref_def)

lemma scenario_b_times:
  "mk_time 10 0 0 = 36000" "mk_time 10 40 0 = 38400" "mk_time 8 0 0 = 28800"
  "mk_time 13 0 0 = 46800"
  by (simp_all add: mk_time_def)

lemma interline_hub_mct:
  assumes "carrier_code inbound \<noteq> carrier_code outbound"
    and "\<not> is_international_flight inbound" and "\<not> is_international_flight outbound"
    and "airport \<in> MCT_HUB_AIRPORTS"
    and "mct_minutes ref airport (carrier_code inbound) (carrier_code outbound) = None \<or>
         mct_minutes ref airport (carrier_code inbound) (carrier_code outbound) = Some 0"
  shows "get_required_mct ref airport inbound outbound =
           (if requires_terminal_change ref airport inbound outbound then 120 else 100)"
  using assms
  by (auto simp: get_required_mct_def Let_def DEFAULT_MCT_def requires_baggage_recheck_def)

text \<open>
  Claim C4, as amended. For the connection of Scenario B (the inbound arrives at 10:00,
  the outbound of another carrier leaves at 10:40 from a hub, both legs domestic) with no
  explicit MCT on file, the required MCT is 45 + 15 (interline) + 30 (baggage re-check,
  which the source adds to every interline connection) + 10 (hub) = 100 minutes, and 120
  when a terminal change is required, which at a hub is assumed for two carriers unless
  both legs have a terminal record. The gap of 40 minutes is below it, and the check
  returns one high \<open>insufficient_connection_time\<close> issue.
\<close>

theorem scenario_b_required_mct:
  assumes "carrier_code inbound \<noteq> carrier_code outbound"
    and "\<not> is_international_flight inbound" and "\<not> is_international_flight outbound"
    and "destination_airport inbound \<in> MCT_HUB_AIRPORTS"
    and "mct_minutes ref (destination_airport inbound) (carrier_code inbound)
           (carrier_code outbound) = None \<or>
         mct_minutes ref (destination_airport inbound) (carrier_code inbound)
           (carrier_code outbound) = Some 0"
    and "arrival_time inbound = mk_time 10 0 0"
    and "departure_time outbound = mk_time 10 40 0"
  shows "get_required_mct ref (destination_airport inbound) inbound outbound =
           (if requires_terminal_change ref (destination_airport inbound) inbound outbound
            then 120 else 100) \<and>
         connection_minutes today inbound outbound = 40 \<and>
         (\<exists>i. validate_connection_time today ref inbound outbound = [i] \<and>
              severity i = High \<and> issue_type i = ''insufficient_connection_time'' \<and>
              i_flight_id i = flight_id outbound \<and>
              map_of (details i) ''required_mct_minutes'' =
                Some (DInt (if requires_terminal_change ref (destination_airport inbound)
                                 inbound outbound
                            then 120 else 100)))"
proof -
  have r: "get_required_mct ref (destination_airport inbound) inbound outbound =
           (if requires_terminal_change ref (destination_airport inbound) inbound outbound
            then 120 else 100)"
    using assms(1-5) by (rule interline_hub_mct)
  have m: "connection_minutes today inbound outbound = 40"
    by (simp add: connection_minutes_today assms(6,7) scenario_b_times)
  show ?thesis
    unfolding validate_connection_time_def Let_def m r by simp
qed

theorem scenario_b_required_mct_witness:
  "map (\<lambda>i. (severity i, issue_type i, map_of (details i) ''required_mct_minutes''))
     (validate_connection_time 20089 empty_ref scenario_b_inbound scenario_b_outbound) =
   [(High, ''insufficient_connection_time'', Some (DInt 120))]"
proof -
  have t: "requires_terminal_change empty_ref ''ORD'' scenario_b_inbound scenario_b_outbound"
    by (simp add: requires_terminal_change_def mct_lookups ord_hub scenario_b_fields)
  from scenario_b_required_mct [of scenario_b_inbound scenario_b_outbound empty_ref 20089]
  show ?thesis
    by (auto simp add: scenario_b_fields scenario_b_domestic ord_hub mct_lookups t)
qed

text \<open>
  Claim C4 as stated fails: for Scenario B the required MCT is 120 minutes when the legs
  have no terminal records and 100 minutes when both are at the same terminal, not 70.
\<close>

theorem scenario_b_mct_is_not_70:
  "get_required_mct empty_ref ''ORD'' scenario_b_inbound scenario_b_outbound = 120 \<and>
   get_required_mct terminal_ref ''ORD'' scenario_b_inbound scenario_b_outbound = 100 \<and>
   get_required_mct empty_ref ''ORD'' scenario_b_inbound scenario_b_outbound \<noteq> 70 \<and>
   get_required_mct terminal_ref ''ORD'' scenario_b_inbound scenario_b_outbound \<noteq> 70"
  by (simp add: interline_hub_mct scenario_b_fields scenario_b_domestic ord_hub mct_lookups
      requires_terminal_change_def)

section \<open>Connections\<close>

lemma connection_time_three_way:
  "(connection_minutes today inbound outbound
      < of_int (get_required_mct ref (destination_airport inbound) inbound outbound) \<longrightarrow>
    (\<exists>i. validate_connection_time today ref inbound outbound = [i] \<and> severity i = High \<and>
         issue_type i = ''insufficient_connection_time'')) \<and>
   (of_int (get_required_mct ref (destination_airport inbound) inbound outbound)
      \<le> connection_minutes today inbound outbound \<and>
    connection_minutes today inbound outbound
      < of_int (get_required_mct ref (destination_airport inbound) inbound outbound) + 5 \<longrightarrow>
    (\<exists>i. validate_connection_time today ref inbound outbound = [i] \<and> severity i = Medium \<and>
         issue_type i = ''tight_connection'')) \<and>
   (of_int (get_required_mct ref (destination_airport inbound) inbound outbound) + 5
      \<le> connection_minutes today inbound outbound \<longrightarrow>
    validate_connection_time today ref inbound outbound = [])"
  by (simp add: validate_connection_time_def Let_def)

lemma online_required:
  "get_required_mct empty_ref ''ORD'' scenario_b_inbound online_outbound = 55"
  by (simp add: get_required_mct_def Let_def DEFAULT_MCT_def requires_baggage_recheck_def
      requires_terminal_change_def scenario_b_fields online_fields scenario_b_domestic ord_hub
      mct_lookups)

lemma online_gap: "connection_minutes d scenario_b_inbound online_outbound = 40"
  by (simp add: connection_minutes_today scenario_b_fields online_fields scenario_b_times)

lemma self_gaps:
  "connection_minutes d scenario_b_inbound scenario_b_inbound = 1320"
  "connection_minutes d online_outbound online_outbound = 1300"
  by (simp_all add: connection_minutes_today scenario_b_fields online_fields scenario_b_times)

lemma online_connections: "find_connections 20089 [scenario_b_inbound, online_outbound] = []"
  by (simp add: find_connections_def scenario_b_fields online_fields
      is_potential_connection_def self_gaps)

text \<open>
  Claim C5 at a failing input. The inbound lands at ORD at 10:00 and the outbound of the
  same carrier leaves ORD at 10:40: the pair is a candidate connection, the required MCT
  is 55 minutes, and the check of the pair returns a high
  \<open>insufficient_connection_time\<close> issue. The validator returns no issue, because it
  pairs a flight only with flights that have the same destination.
\<close>

theorem connection_missed_by_validator:
  "destination_airport scenario_b_inbound = origin_airport online_outbound \<and>
   is_potential_connection 20089 scenario_b_inbound online_outbound \<and>
   map (\<lambda>i. (severity i, issue_type i))
     (validate_connection_time 20089 empty_ref scenario_b_inbound online_outbound) =
     [(High, ''insufficient_connection_time'')] \<and>
   mct_validate 20089 empty_ref [scenario_b_inbound, online_outbound] = []"
  by (simp add: scenario_b_fields online_fields is_potential_connection_def online_gap
      online_required validate_connection_time_def mct_validate_def online_connections)

section \<open>Groups of flights\<close>

lemma group_values_simps [simp]:
  "group_values [] = {}"
  "group_values (p # g) = set (snd p) \<union> group_values g"
  by (simp_all add: group_values_def)

lemma group_values_insert: "group_values (group_insert k v g) = insert v (group_values g)"
  by (induction k v g rule: group_insert.induct) auto

lemma group_values_member: "p \<in> set g \<Longrightarrow> set (snd p) \<subseteq> group_values g"
  by (auto simp: group_values_def)

lemma foldl_group_values:
  assumes "\<And>g f. group_values (step g f) \<subseteq> insert f (group_values g)"
    and "\<And>g f. \<not> P f \<Longrightarrow> step g f = g"
  shows "group_values (foldl step g0 fs) \<subseteq> group_values g0 \<union> {f \<in> set fs. P f}"
proof (induction fs arbitrary: g0)
  case Nil
  then show ?case by simp
next
  case (Cons f fs)
  have "group_values (foldl step (step g0 f) fs) \<subseteq> group_values (step g0 f) \<union> {x \<in> set fs. P x}"
    by (rule Cons.IH)
  moreover have "group_values (step g0 f) \<subseteq> group_values g0 \<union> {x \<in> set (f # fs). P x}"
  proof (cases "P f")
    case True
    with assms(1) [of g0 f] show ?thesis by auto
  next
    case False
    with assms(2) [of f g0] show ?thesis by auto
  qed
  ultimately show ?case by auto
qed

lemma group_by_aircraft_values:
  "group_values (group_by_aircraft flights)
     \<subseteq> {f \<in> set flights. truthy_str (aircraft_registration f)}"
proof -
  have "group_values (group_by_aircraft flights)
          \<subseteq> group_values ([] :: (string \<times> flight list) list) \<union>
            {f \<in> set flights. truthy_str (aircraft_registration f)}"
    unfolding group_by_aircraft_def
    by (rule foldl_group_values [where P = "\<lambda>f. truthy_str (aircraft_registration f)"])
       (auto simp: group_values_insert split: option.splits)
  then show ?thesis by simp
qed

lemma group_by_aircraft_and_date_values:
  "group_values (group_by_aircraft_and_date flights)
     \<subseteq> {f \<in> set flights. truthy_str (aircraft_registration f)}"
proof -
  have "group_values (group_by_aircraft_and_date flights)
          \<subseteq> group_values ([] :: ((string \<times> date) \<times> flight list) list) \<union>
            {f \<in> set flights. truthy_str (aircraft_registration f)}"
    unfolding group_by_aircraft_and_date_def
    by (rule foldl_group_values [where P = "\<lambda>f. truthy_str (aircraft_registration f)"])
       (auto simp: group_values_insert split: option.splits)
  then show ?thesis by simp
qed

lemma group_by_date_values:
  "group_values (foldl (\<lambda>g f. group_insert (effective_from f) f g) [] fs)
     \<subseteq> set (fs :: flight list)"
proof -
  have "group_values (foldl (\<lambda>g f. group_insert (effective_from f) f g) [] fs)
          \<subseteq> group_values ([] :: (date option \<times> flight list) list) \<union> {f \<in> set fs. True}"
    by (rule foldl_group_values [where P = "\<lambda>f. True"]) (auto simp: group_values_insert)
  then show ?thesis by simp
qed

lemma validate_sorted_ids:
  "i \<in> set (validate_sorted today ref info reg prev fs) \<Longrightarrow> i_flight_id i \<in> flight_id ` set fs"
  by (induction fs arbitrary: prev)
     (auto simp: validate_aircraft_type_def validate_maintenance_def validate_turnaround_def
        validate_routing_continuity_def Let_def split: option.splits if_splits)

lemma utilization_of_empty_day: "snd g = [] \<Longrightarrow> utilization_of_day today reg g = []"
  by (simp add: utilization_of_day_def)

lemma utilization_names_first:
  "snd g = first # rest \<Longrightarrow>
     \<forall>j \<in> set (utilization_of_day today reg g). i_flight_id j = flight_id first"
  unfolding utilization_of_day_def Let_def
  by (cases "rat_of_int MAX_DAILY_FLIGHT_HOURS < sum_list (map (duration_hours today) (snd g))")
     simp_all

lemma utilization_of_day_ids:
  assumes "i \<in> set (utilization_of_day today reg g)"
  shows "i_flight_id i \<in> flight_id ` set (snd g)"
proof (cases "snd g")
  case Nil
  with assms utilization_of_empty_day [of g today reg] show ?thesis by simp
next
  case (Cons first rest)
  with assms utilization_names_first [of g first rest today reg] show ?thesis by auto
qed

lemma validate_daily_utilization_ids:
  assumes "i \<in> set (validate_daily_utilization today fs reg)"
  shows "i_flight_id i \<in> flight_id ` set fs"
proof -
  from assms obtain g where
    g: "g \<in> set (foldl (\<lambda>g f. group_insert (effective_from f) f g) [] fs)"
    and i: "i \<in> set (utilization_of_day today reg g)"
    by (auto simp: validate_daily_utilization_def)
  from g have "set (snd g) \<subseteq> set fs"
    using group_values_member group_by_date_values by blast
  with utilization_of_day_ids [OF i] show ?thesis by blast
qed

lemma validate_aircraft_group_ids:
  assumes "i \<in> set (validate_aircraft_group today ref g)"
  shows "i_flight_id i \<in> flight_id ` set (snd g)"
proof (cases "aircraft_row ref (fst g)")
  case None
  with assms show ?thesis by (auto simp: validate_aircraft_group_def)
next
  case (Some info)
  show ?thesis
  proof (cases "status info = ''active''")
    case False
    with assms Some show ?thesis by (auto simp: validate_aircraft_group_def)
  next
    case True
    with assms Some have
      "i \<in> set (validate_sorted today ref info (fst g) None (sort_key departure_time (snd g))) \<or>
       i \<in> set (validate_daily_utilization today (sort_key departure_time (snd g)) (fst g))"
      by (auto simp: validate_aircraft_group_def Let_def)
    then show ?thesis
      using validate_sorted_ids validate_daily_utilization_ids by fastforce
  qed
qed

lemma aircraft_validate_ids:
  assumes "i \<in> set (aircraft_validate today ref flights)"
  shows "\<exists>f \<in> set flights. truthy_str (aircraft_registration f) \<and> i_flight_id i = flight_id f"
proof -
  from assms obtain g where g: "g \<in> set (group_by_aircraft flights)"
    and i: "i \<in> set (validate_aircraft_group today ref g)"
    by (auto simp: aircraft_validate_def)
  from g have "set (snd g) \<subseteq> {f \<in> set flights. truthy_str (aircraft_registration f)}"
    using group_values_member group_by_aircraft_values by blast
  with validate_aircraft_group_ids [OF i] show ?thesis by blast
qed

lemma chain_issues_ids:
  "i \<in> set (chain_issues reg d all_flights fs) \<Longrightarrow> i_flight_id i \<in> flight_id ` set fs"
  by (induction reg d all_flights fs rule: chain_issues.induct) (auto split: if_splits)

lemma validate_routing_chain_ids:
  "i \<in> set (validate_routing_chain fs reg d) \<Longrightarrow> i_flight_id i \<in> flight_id ` set fs"
  by (auto simp: validate_routing_chain_def Let_def dest: chain_issues_ids split: if_splits)

lemma validate_range_limitations_ids:
  "i \<in> set (validate_range_limitations ref fs) \<Longrightarrow> i_flight_id i \<in> flight_id ` set fs"
  by (auto simp: validate_range_limitations_def range_issue_def Let_def split: if_splits)

lemma validate_hub_connectivity_ids:
  "i \<in> set (validate_hub_connectivity fs) \<Longrightarrow> i_flight_id i \<in> flight_id ` set fs"
  by (cases fs) (auto simp: validate_hub_connectivity_def Let_def split: if_splits)

lemma check_positioning_efficiency_ids:
  "i \<in> set (check_positioning_efficiency fs) \<Longrightarrow> i_flight_id i \<in> flight_id ` set fs"
  by (auto simp: check_positioning_efficiency_def positioning_issue_def split: if_splits)

lemma validate_routing_group_ids:
  assumes "i \<in> set (validate_routing_group ref g)"
  shows "i_flight_id i \<in> flight_id ` set (snd g)"
proof -
  let ?s = "sort_key departure_time (snd g)"
  from assms have "i \<in> set (validate_routing_chain ?s (fst (fst g)) (snd (fst g))) \<or>
      i \<in> set (validate_range_limitations ref ?s) \<or>
      i \<in> set (validate_hub_connectivity ?s) \<or>
      i \<in> set (check_positioning_efficiency ?s)"
    by (auto simp: validate_routing_group_def Let_def)
  then have "i_flight_id i \<in> flight_id ` set ?s"
    using validate_routing_chain_ids validate_range_limitations_ids
      validate_hub_connectivity_ids check_positioning_efficiency_ids by blast
  then show ?thesis by simp
qed

lemma routing_validate_ids:
  assumes "i \<in> set (routing_validate ref flights)"
  shows "\<exists>f \<in> set flights. truthy_str (aircraft_registration f) \<and> i_flight_id i = flight_id f"
proof -
  from assms obtain g where g: "g \<in> set (group_by_aircraft_and_date flights)"
    and i: "i \<in> set (validate_routing_group ref g)"
    by (auto simp: routing_validate_def)
  from g have "set (snd g) \<subseteq> {f \<in> set flights. truthy_str (aircraft_registration f)}"
    using group_values_member group_by_aircraft_and_date_values by blast
  with validate_routing_group_ids [OF i] show ?thesis by blast
qed


lemma group_insert_keyed:
  assumes "\<forall>p \<in> set g. \<forall>v \<in> set (snd p). key v = fst p"
  shows "\<forall>p \<in> set (group_insert (key x) x g). \<forall>v \<in> set (snd p). key v = fst p"
  using assms
proof (induction g)
  case Nil
  then show ?case by simp
next
  case (Cons q g)
  obtain k vs where q: "q = (k, vs)" by (cases q)
  from Cons.prems have vs: "\<forall>v \<in> set vs. key v = k" and
    g: "\<forall>p \<in> set g. \<forall>v \<in> set (snd p). key v = fst p"
    by (simp_all add: q)
  have ih: "\<forall>p \<in> set (group_insert (key x) x g). \<forall>v \<in> set (snd p). key v = fst p"
    using g by (rule Cons.IH)
  show ?case
  proof (cases "key x = k")
    case True
    with vs g show ?thesis by (simp add: q)
  next
    case False
    with vs ih show ?thesis by (simp add: q)
  qed
qed

lemma foldl_group_keyed:
  assumes "\<forall>p \<in> set g0. \<forall>v \<in> set (snd p). key v = fst p"
  shows "\<forall>p \<in> set (foldl (\<lambda>g f. group_insert (key f) f g) g0 fs).
           \<forall>v \<in> set (snd p). key v = fst p"
  using assms
proof (induction fs arbitrary: g0)
  case Nil
  then show ?case by simp
next
  case (Cons f fs)
  have "\<forall>p \<in> set (group_insert (key f) f g0). \<forall>v \<in> set (snd p). key v = fst p"
    using Cons.prems by (rule group_insert_keyed [where key = key and x = f])
  then have "\<forall>p \<in> set (foldl (\<lambda>g f. group_insert (key f) f g) (group_insert (key f) f g0) fs).
               \<forall>v \<in> set (snd p). key v = fst p"
    by (rule Cons.IH)
  then show ?case unfolding foldl_Cons .
qed


lemma found_connections_share_destination:
  assumes "(inbound, outbound) \<in> set (find_connections today flights)"
  shows "destination_airport outbound = destination_airport inbound"
proof -
  let ?key = "\<lambda>f. (destination_airport f, effective_from f)"
  let ?g = "foldl (\<lambda>g f. group_insert (?key f) f g) [] flights"
  let ?pairs = "\<lambda>f. case map_of ?g (?key f) of
                       None \<Rightarrow> []
                     | Some outbounds \<Rightarrow>
                         map (\<lambda>outbound. (f, outbound))
                           (filter (\<lambda>outbound. is_potential_connection today f outbound)
                              outbounds)"
  have fc: "find_connections today flights = concat (map ?pairs flights)"
    by (simp only: find_connections_def Let_def)
  from assms obtain f where p: "(inbound, outbound) \<in> set (?pairs f)"
    unfolding fc set_concat set_map by blast
  obtain outbounds where m: "map_of ?g (?key inbound) = Some outbounds"
    and o: "outbound \<in> set outbounds"
  proof (cases "map_of ?g (?key f)")
    case None
    with p show ?thesis by simp
  next
    case (Some outbounds)
    with p have "f = inbound" "outbound \<in> set outbounds" by auto
    with Some that show ?thesis by simp
  qed
  have keyed: "\<forall>p \<in> set ?g. \<forall>v \<in> set (snd p). ?key v = fst p"
    by (rule foldl_group_keyed [where ?g0.0 = "[]" and key = ?key]) simp
  from m have mem: "(?key inbound, outbounds) \<in> set ?g" by (rule map_of_SomeD)
  from keyed mem
  have "\<forall>v \<in> set (snd (?key inbound, outbounds)). ?key v = fst (?key inbound, outbounds)"
    by (rule bspec)
  then have "\<forall>v \<in> set outbounds. ?key v = ?key inbound" by simp
  then have "?key outbound = ?key inbound" using o by (rule bspec)
  then show ?thesis by simp
qed

section \<open>Turnaround\<close>

lemma tail_fields:
  "flight_id late_arrival = ''t-1''" "flight_id early_departure = ''t-2''"
  "flight_number late_arrival = ''CM201''" "flight_number early_departure = ''CM202''"
  "departure_time late_arrival = mk_time 0 5 0"
  "arrival_time late_arrival = mk_time 23 30 0"
  "departure_time early_departure = mk_time 0 15 0"
  "arrival_time early_departure = mk_time 3 0 0"
  "origin_airport late_arrival = ''PTY''" "destination_airport late_arrival = ''MIA''"
  "origin_airport early_departure = ''MIA''" "destination_airport early_departure = ''PTY''"
  "aircraft_registration late_arrival = Some ''HP-1234''"
  "aircraft_registration early_departure = Some ''HP-1234''"
  "aircraft_type late_arrival = ''738''" "aircraft_type early_departure = ''738''"
  "effective_from late_arrival = Some 20089" "effective_from early_departure = Some 20089"
  by (simp_all add: late_arrival_def early_departure_def)

lemma tail_times: "mk_time 0 5 0 = 300" "mk_time 23 30 0 = 84600" "mk_time 0 15 0 = 900"
  "mk_time 3 0 0 = 10800"
  by (simp_all add: mk_time_def)

lemma hp_fields: "registration hp1234 = ''HP-1234''" "info_aircraft_type hp1234 = ''738''"
  "status hp1234 = ''active''"
  by (simp_all add: hp1234_def)

lemma narrow_738: "get_aircraft_category ''738'' = ''narrow_body''"
  by (simp add: get_aircraft_category_def AIRCRAFT_CATEGORIES_def)

lemma min_narrow: "min_turnaround_of ''narrow_body'' = 45"
  by (simp add: min_turnaround_of_def MIN_TURNAROUND_TIMES_def)

lemma overnight_gap: "turnaround_minutes d late_arrival early_departure = - 1395"
  by (simp add: turnaround_minutes_today tail_fields tail_times)

lemma pyr: "py_round (- 1395) = - 1395"
  by (simp add: py_round_def)

lemma overnight_turnaround_issue:
  "validate_turnaround d late_arrival early_departure hp1234 =
     [new_issue High ''aircraft_validation'' ''t-2'' ''CM202'' ''insufficient_turnaround''
        [(''aircraft_registration'', DStr ''HP-1234''),
         (''previous_flight'', DStr ''CM201''),
         (''previous_arrival'', DTime (mk_time 23 30 0)),
         (''current_departure'', DTime (mk_time 0 15 0)),
         (''turnaround_minutes'', DInt (- 1395)),
         (''minimum_required'', DInt 45)]]"
  by (simp add: validate_turnaround_def overnight_gap hp_fields narrow_738 min_narrow
      tail_fields pyr)

lemma fleet_lookups:
  "aircraft_row fleet_ref ''HP-1234'' = Some hp1234"
  "maintenance_row fleet_ref r t = None"
  by (simp_all add: fleet_ref_def empty_ref_def)

lemma tail_groups:
  "group_by_aircraft [late_arrival, early_departure] =
     [(''HP-1234'', [late_arrival, early_departure])]"
  by (simp add: group_by_aircraft_def tail_fields)

lemma tail_sorted:
  "sort_key departure_time [late_arrival, early_departure] = [late_arrival, early_departure]"
  by (simp add: tail_fields tail_times)

lemma tail_durations:
  "duration_hours d late_arrival = 281 / 12" "duration_hours d early_departure = 11 / 4"
  by (simp_all add: duration_hours_today tail_fields tail_times)

lemma tail_utilization:
  "map issue_type (validate_daily_utilization d [late_arrival, early_departure] ''HP-1234'') =
     [''excessive_utilization'']"
  by (simp add: validate_daily_utilization_def tail_fields utilization_of_day_def
      tail_durations MAX_DAILY_FLIGHT_HOURS_def)

lemma tail_issue_types:
  "map issue_type (aircraft_validate 20089 fleet_ref [late_arrival, early_departure]) =
     [''insufficient_turnaround'', ''excessive_utilization'']"
  by (simp add: aircraft_validate_def tail_groups validate_aircraft_group_def fleet_lookups
      hp_fields tail_sorted validate_aircraft_type_def validate_maintenance_def
      overnight_turnaround_issue validate_routing_continuity_def tail_fields
      tail_utilization tail_times Let_def)

lemma min_turnaround_positive: "0 < min_turnaround_of c"
  by (simp add: min_turnaround_of_def MIN_TURNAROUND_TIMES_def)

text \<open>
  When the next departure is not before the previous arrival, the boundary is where
  the claim has it: a gap of the minimum passes, a gap one minute shorter does not.
\<close>

lemma turnaround_boundary_same_day:
  "(int (departure_time current_flight) =
      int (arrival_time prev_flight) +
        60 * min_turnaround_of (get_aircraft_category (info_aircraft_type info)) \<longrightarrow>
    validate_turnaround today prev_flight current_flight info = []) \<and>
   (int (departure_time current_flight) =
      int (arrival_time prev_flight) +
        60 * (min_turnaround_of (get_aircraft_category (info_aircraft_type info)) - 1) \<longrightarrow>
    (\<exists>i. validate_turnaround today prev_flight current_flight info = [i] \<and>
       severity i = High \<and> issue_type i = ''insufficient_turnaround''))"
  by (simp add: validate_turnaround_def Let_def turnaround_minutes_today)

text \<open>
  When the next departure is before the previous arrival, the computed gap is negative
  and the issue is always returned.
\<close>

lemma turnaround_before_arrival:
  assumes "departure_time current_flight < arrival_time prev_flight"
  shows "\<exists>i. validate_turnaround today prev_flight current_flight info = [i] \<and>
           severity i = High \<and> issue_type i = ''insufficient_turnaround''"
proof -
  have "turnaround_minutes today prev_flight current_flight < 0"
    using assms by (simp add: turnaround_minutes_today)
  moreover have
    "(0::rat) < of_int (min_turnaround_of (get_aircraft_category (info_aircraft_type info)))"
    using min_turnaround_positive by simp
  ultimately have "turnaround_minutes today prev_flight current_flight
      < of_int (min_turnaround_of (get_aircraft_category (info_aircraft_type info)))"
    by (rule less_trans)
  then show ?thesis by (simp add: validate_turnaround_def Let_def)
qed

text \<open>
  Claim C6 at a failing input. Two consecutive flights of an active, registered 738: the
  first lands at 23:30 and the second leaves at 00:15, so the overnight-aware gap is
  exactly the narrow-body minimum of 45 minutes. The validator computes a gap of -1395
  minutes and returns a high \<open>insufficient_turnaround\<close> issue for the second flight.
\<close>

theorem overnight_turnaround_flagged:
  "int (departure_time early_departure) + 86400 - int (arrival_time late_arrival) =
     60 * min_turnaround_of (get_aircraft_category (info_aircraft_type hp1234)) \<and>
   sort_key departure_time [late_arrival, early_departure] = [late_arrival, early_departure] \<and>
   validate_turnaround 20089 late_arrival early_departure hp1234 =
     [new_issue High ''aircraft_validation'' ''t-2'' ''CM202'' ''insufficient_turnaround''
        [(''aircraft_registration'', DStr ''HP-1234''),
         (''previous_flight'', DStr ''CM201''),
         (''previous_arrival'', DTime (mk_time 23 30 0)),
         (''current_departure'', DTime (mk_time 0 15 0)),
         (''turnaround_minutes'', DInt (- 1395)),
         (''minimum_required'', DInt 45)]] \<and>
   map issue_type (aircraft_validate 20089 fleet_ref [late_arrival, early_departure]) =
     [''insufficient_turnaround'', ''excessive_utilization'']"
  by (simp add: tail_sorted overnight_turnaround_issue tail_issue_types hp_fields narrow_738
      min_narrow)
     (simp add: tail_fields tail_times)

section \<open>Flights without a registration\<close>

text \<open>
  Claim C10. In a flight list with distinct flight ids, a flight whose registration is
  \<^verbatim>\<open>None\<close> or empty is named by no issue of the aircraft validator and by no issue of
  the routing validator: both validators leave it out of their groups, and every issue
  they return carries the flight id of a grouped flight.
\<close>

theorem unregistered_flights_skipped:
  assumes "f \<in> set flights"
    and "\<not> truthy_str (aircraft_registration f)"
    and "distinct (map flight_id flights)"
  shows "\<forall>i \<in> set (aircraft_validate today ref flights) \<union> set (routing_validate ref flights).
           i_flight_id i \<noteq> flight_id f"
proof
  fix i
  assume "i \<in> set (aircraft_validate today ref flights) \<union> set (routing_validate ref flights)"
  then obtain g where g: "g \<in> set flights" "truthy_str (aircraft_registration g)"
      "i_flight_id i = flight_id g"
    using aircraft_validate_ids routing_validate_ids by blast
  from assms(3) have "inj_on flight_id (set flights)"
    by (simp add: distinct_map)
  with g(1) assms(1) have "flight_id g = flight_id f \<Longrightarrow> g = f"
    by (auto dest: inj_onD)
  with g(2,3) assms(2) show "i_flight_id i \<noteq> flight_id f" by auto
qed


theorem unregistered_flights_skipped_witness:
  "flight_id scenario_b_inbound \<notin>
     i_flight_id ` (set (aircraft_validate 20089 fleet_ref
                           [scenario_b_inbound, late_arrival, early_departure]) \<union>
                    set (routing_validate fleet_ref
                           [scenario_b_inbound, late_arrival, early_departure]))"
proof -
  have m: "scenario_b_inbound \<in> set [scenario_b_inbound, late_arrival, early_departure]"
    by simp
  have u: "\<not> truthy_str (aircraft_registration scenario_b_inbound)"
    by (simp add: scenario_b_fields)
  have d: "distinct (map flight_id [scenario_b_inbound, late_arrival, early_departure])"
    by (simp add: scenario_b_fields tail_fields)
  show ?thesis
  proof
    assume "flight_id scenario_b_inbound \<in>
      i_flight_id ` (set (aircraft_validate 20089 fleet_ref
                            [scenario_b_inbound, late_arrival, early_departure]) \<union>
                     set (routing_validate fleet_ref
                            [scenario_b_inbound, late_arrival, early_departure]))"
    then obtain i where
      i: "i \<in> set (aircraft_validate 20089 fleet_ref
                    [scenario_b_inbound, late_arrival, early_departure]) \<union>
             set (routing_validate fleet_ref
                    [scenario_b_inbound, late_arrival, early_departure])"
      and e: "flight_id scenario_b_inbound = i_flight_id i"
      by (rule imageE)
    from i have "i_flight_id i \<noteq> flight_id scenario_b_inbound"
      using unregistered_flights_skipped [OF m u d, of 20089 fleet_ref] by blast
    with e show False by simp
  qed
qed


end
